theory Spec2Isabelle
  imports Main "HOL-Library.Word"
begin

section \<open>Machine types and decimal rendering\<close>

text \<open>
  \<^verbatim>\<open>verifier.cpp\<close> works with C++ \<^verbatim>\<open>int\<close> (32 bits, two's complement),
  \<^verbatim>\<open>size_t\<close> (64 bits, unsigned), \<^verbatim>\<open>std::string\<close> and raw byte buffers.
  A \<^verbatim>\<open>std::string\<close> is a \<open>string\<close>; a byte buffer obtained by the cast
  \<^verbatim>\<open>(byte *) s.data()\<close> is the same character list.
\<close>

type_synonym c_int = "32 word"
type_synonym size_t = "64 word"
type_synonym byte = "8 word"

text \<open>
  \<^verbatim>\<open>std::to_string\<close> prints an \<^verbatim>\<open>int\<close> as \<^verbatim>\<open>%d\<close> and an unsigned
  \<^verbatim>\<open>size_t\<close> as \<^verbatim>\<open>%lu\<close>: decimal digits, most significant first, with a
  leading minus sign for a negative \<^verbatim>\<open>int\<close>.
\<close>

definition digit_char :: "nat \<Rightarrow> char" where
  "digit_char d = ''0123456789'' ! d"

fun to_string_nat :: "nat \<Rightarrow> string" where
  "to_string_nat n =
     (if n < 10 then [digit_char n]
      else to_string_nat (n div 10) @ [digit_char (n mod 10)])"

declare to_string_nat.simps [simp del]

definition to_string_int :: "c_int \<Rightarrow> string" where
  "to_string_int v =
     (if sint v < 0 then CHR ''-'' # to_string_nat (nat (- sint v))
      else to_string_nat (nat (sint v)))"

definition to_string_size_t :: "size_t \<Rightarrow> string" where
  "to_string_size_t v = to_string_nat (unat v)"

section \<open>The security level tables\<close>

definition NUMBER_OF_SECURITY_LENGTHS :: nat where
  "NUMBER_OF_SECURITY_LENGTHS = 5"

definition securityLevels :: "c_int list" where
  "securityLevels = [80, 112, 128, 192, 256]"

definition finiteFieldSizes :: "c_int list" where
  "finiteFieldSizes = [1024, 2048, 3072, 7680, 15360]"

definition finiteFieldSubgroupSizes :: "c_int list" where
  "finiteFieldSubgroupSizes = [160, 224, 256, 384, 511]"

definition factorizationGroupSizes :: "c_int list" where
  "factorizationGroupSizes = [1024, 2048, 3072, 7680, 15360]"

definition ellipticCurveSizes :: "c_int list" where
  "ellipticCurveSizes = [160, 224, 256, 384, 512]"

text \<open>
  The lookup loop of \<^verbatim>\<open>main\<close>:
  \<^verbatim>\<open>
  int securityIndex = 0;
  for (int i = 0; i < NUMBER_OF_SECURITY_LENGTHS; i++) {
      if (securityLevels[i] == securityLevel) { securityIndex = i; break; }
  }
  \<close>
  \<open>securityIndex_loop\<close> is the loop from counter \<open>i\<close> on, with the current value of
  \<^verbatim>\<open>securityIndex\<close> as accumulator; \<open>securityIndex_of\<close> starts it as the code does.
\<close>

function securityIndex_loop :: "c_int \<Rightarrow> nat \<Rightarrow> nat \<Rightarrow> nat" where
  "securityIndex_loop securityLevel i securityIndex =
     (if i < NUMBER_OF_SECURITY_LENGTHS then
        (if securityLevels ! i = securityLevel then i
         else securityIndex_loop securityLevel (Suc i) securityIndex)
      else securityIndex)"
  by pat_completeness auto
termination
  by (relation "measure (\<lambda>(l, i, s). NUMBER_OF_SECURITY_LENGTHS - i)") auto

declare securityIndex_loop.simps [simp del]

definition securityIndex_of :: "c_int \<Rightarrow> nat" where
  "securityIndex_of securityLevel = securityIndex_loop securityLevel 0 0"

section \<open>Descriptions and CSV lines\<close>

definition generateDetailedDescription :: "string \<Rightarrow> c_int \<Rightarrow> c_int \<Rightarrow> c_int \<Rightarrow> string" where
  "generateDetailedDescription algorithmName securityLevel keyLength inputLength =
     (let fullDescription = [];
          fullDescription = fullDescription @ algorithmName;
          fullDescription = fullDescription @ '','';
          fullDescription = fullDescription @ to_string_int securityLevel;
          fullDescription = fullDescription @ '','';
          fullDescription = fullDescription @ to_string_int keyLength;
          fullDescription = fullDescription @ '','';
          fullDescription = fullDescription @ to_string_int inputLength
      in fullDescription)"

definition generateCSVString :: "string \<Rightarrow> string \<Rightarrow> size_t \<Rightarrow> string" where
  "generateCSVString description operation delta =
     (let csv = [];
          csv = csv @ description;
          csv = csv @ '','';
          csv = csv @ operation;
          csv = csv @ '','';
          csv = csv @ to_string_size_t delta
      in csv)"

section \<open>The process environment\<close>

text \<open>
  The state the program acts on: what is left unread on standard input, the lines
  written to \<^verbatim>\<open>cout\<close> (one list element per \<^verbatim>\<open><< endl\<close>), the readings that
  \<^verbatim>\<open>steady_clock::now()\<close> returns (in nanoseconds, by number of the call) with
  the count of calls made so far, the state of the global generator
  \<^verbatim>\<open>s_globalRNG\<close>, and the trace of the calls made to the Crypto++ library that
  build keys or consume randomness, each with the generator state it was handed.
\<close>

datatype keygen_request =
    RSASSA_PKCS1v15_MD2_Signer c_int
  | NR_SHA_Signer c_int
  | DSA_Signer c_int
  | LUCSSA_PKCS1v15_SHA_Signer c_int
  | LUC_HMP_SHA_Signer c_int
  | RabinSS_PSSR_SHA_Signer c_int
  | RWSS_PSSR_SHA_Signer c_int

record ec2n_request =
  field_GF2NT :: "nat \<times> nat \<times> nat"
  coeff_a :: "byte list"
  coeff_b :: "byte list"
  encoded_P :: "byte list"
  order_n :: int
  private_d :: int

datatype 'r libcall =
    CallSetKeyWithIV string nat string
  | CallGenerateSigner keygen_request 'r
  | CallFixedSigner ec2n_request
  | CallValidatePublic nat 'r
  | CallValidatePrivate nat 'r
  | CallSignMessage string size_t 'r

record 'r world =
  stdin :: string
  stdout :: "string list"
  steady_clock :: "nat \<Rightarrow> int"
  clock_reads :: nat
  globalRNG :: 'r
  lib_trace :: "'r libcall list"

datatype failure = AssertionFailed | LibraryException | UndefinedBehaviour

text \<open>
  The Crypto++ primitives are not part of \<^verbatim>\<open>verifier.cpp\<close>; they are a parameter
  of the model. A generator state has type \<open>'r\<close>, a signer \<open>'sk\<close>, a verifier
  \<open>'vk\<close>. A constructor that throws returns \<open>None\<close>; the exception is not
  caught anywhere, so the process terminates.
  \<^item> \<open>SetKeyWithIV r key length iv\<close>: \<^verbatim>\<open>s_globalRNG.SetKeyWithIV(key, length, iv)\<close>;
  \<^item> \<open>GenerateSigner req r\<close>: the constructor \<^verbatim>\<open>Signer(GlobalRNG(), bits)\<close> of the
    scheme named by \<open>req\<close>;
  \<^item> \<open>FixedSigner req\<close>: the ECDSA signer built from explicit domain parameters,
    without the generator;
  \<^item> \<open>Precompute\<close>: \<^verbatim>\<open>AccessKey().Precompute()\<close>;
  \<^item> \<open>Verifier sk\<close>: the constructor \<^verbatim>\<open>Verifier(priv)\<close>;
  \<^item> \<open>ValidatePublic\<close>, \<open>ValidatePrivate\<close>: \<^verbatim>\<open>GetMaterial().Validate(rng, level)\<close>;
  \<^item> \<open>SignMessage sk r input inputLength\<close>: the signature buffer (allocated with
    \<^verbatim>\<open>MaxSignatureLength()\<close> bytes) as \<^verbatim>\<open>SignMessage\<close> leaves it, and the
    signature length it returns;
  \<^item> \<open>VerifyMessage vk input inputLength signature signatureLength\<close>.
  Each primitive is a function of its arguments and of the generator state it is
  handed; only the constructors are taken to throw.
\<close>

record ('r, 'sk, 'vk) cryptolib =
  SetKeyWithIV :: "'r \<Rightarrow> string \<Rightarrow> nat \<Rightarrow> string \<Rightarrow> 'r"
  GenerateSigner :: "keygen_request \<Rightarrow> 'r \<Rightarrow> ('sk \<times> 'r) option"
  FixedSigner :: "ec2n_request \<Rightarrow> 'sk option"
  Precompute :: "'sk \<Rightarrow> 'sk"
  Verifier :: "'sk \<Rightarrow> 'vk"
  ValidatePublic :: "'vk \<Rightarrow> 'r \<Rightarrow> nat \<Rightarrow> bool \<times> 'r"
  ValidatePrivate :: "'sk \<Rightarrow> 'r \<Rightarrow> nat \<Rightarrow> bool \<times> 'r"
  SignMessage :: "'sk \<Rightarrow> 'r \<Rightarrow> string \<Rightarrow> size_t \<Rightarrow> (byte list \<times> size_t) \<times> 'r"
  VerifyMessage :: "'vk \<Rightarrow> string \<Rightarrow> size_t \<Rightarrow> byte list \<Rightarrow> size_t \<Rightarrow> bool"

type_synonym ('a, 'r) run = "(failure + 'a) \<times> 'r world"

definition and_then :: "('a, 'r) run \<Rightarrow> ('a \<Rightarrow> 'r world \<Rightarrow> ('b, 'r) run) \<Rightarrow> ('b, 'r) run" where
  "and_then m f = (case m of (Inl e, w) \<Rightarrow> (Inl e, w) | (Inr a, w) \<Rightarrow> f a w)"

definition cout_endl :: "string \<Rightarrow> 'r world \<Rightarrow> 'r world" where
  "cout_endl s w = w\<lparr>stdout := stdout w @ [s]\<rparr>"

definition now :: "'r world \<Rightarrow> int \<times> 'r world" where
  "now w = (steady_clock w (clock_reads w), w\<lparr>clock_reads := Suc (clock_reads w)\<rparr>)"

text \<open>
  \<^verbatim>\<open>duration_cast<nanoseconds>(end - start).count()\<close> is a signed 64-bit count,
  converted to \<^verbatim>\<open>size_t\<close> by the initialisation.
\<close>

definition nanoseconds_between :: "int \<Rightarrow> int \<Rightarrow> size_t" where
  "nanoseconds_between startTime endTime = word_of_int (endTime - startTime)"

definition generate_signer ::
  "('r, 'sk, 'vk) cryptolib \<Rightarrow> keygen_request \<Rightarrow> 'r world \<Rightarrow> ('sk, 'r) run" where
  "generate_signer lib req w =
     (let w' = w\<lparr>lib_trace := lib_trace w @ [CallGenerateSigner req (globalRNG w)]\<rparr>
      in case GenerateSigner lib req (globalRNG w) of
           None \<Rightarrow> (Inl LibraryException, w')
         | Some (priv, r) \<Rightarrow> (Inr priv, w'\<lparr>globalRNG := r\<rparr>))"

definition fixed_signer ::
  "('r, 'sk, 'vk) cryptolib \<Rightarrow> ec2n_request \<Rightarrow> 'r world \<Rightarrow> ('sk, 'r) run" where
  "fixed_signer lib req w =
     (let w' = w\<lparr>lib_trace := lib_trace w @ [CallFixedSigner req]\<rparr>
      in case FixedSigner lib req of
           None \<Rightarrow> (Inl LibraryException, w')
         | Some priv \<Rightarrow> (Inr priv, w'))"

definition validate_public ::
  "('r, 'sk, 'vk) cryptolib \<Rightarrow> 'vk \<Rightarrow> nat \<Rightarrow> 'r world \<Rightarrow> bool \<times> 'r world" where
  "validate_public lib pub level w =
     (let (ok, r) = ValidatePublic lib pub (globalRNG w) level
      in (ok, w\<lparr>globalRNG := r,
                lib_trace := lib_trace w @ [CallValidatePublic level (globalRNG w)]\<rparr>))"

definition validate_private ::
  "('r, 'sk, 'vk) cryptolib \<Rightarrow> 'sk \<Rightarrow> nat \<Rightarrow> 'r world \<Rightarrow> bool \<times> 'r world" where
  "validate_private lib priv level w =
     (let (ok, r) = ValidatePrivate lib priv (globalRNG w) level
      in (ok, w\<lparr>globalRNG := r,
                lib_trace := lib_trace w @ [CallValidatePrivate level (globalRNG w)]\<rparr>))"

definition sign_message ::
  "('r, 'sk, 'vk) cryptolib \<Rightarrow> 'sk \<Rightarrow> string \<Rightarrow> size_t \<Rightarrow> 'r world
     \<Rightarrow> (byte list \<times> size_t) \<times> 'r world" where
  "sign_message lib priv input inputLength w =
     (let (sg, r) = SignMessage lib priv (globalRNG w) input inputLength
      in (sg, w\<lparr>globalRNG := r,
                lib_trace := lib_trace w @ [CallSignMessage input inputLength (globalRNG w)]\<rparr>))"

section \<open>The timed validation protocol\<close>

text \<open>
  \<^verbatim>\<open>ProfileSignatureValidate\<close>. The program is built as its first lines say
  (\<^verbatim>\<open>g++ -o verifier verifier.cpp libcryptopp.a\<close>, without \<^verbatim>\<open>NDEBUG\<close>), so a
  failed \<^verbatim>\<open>assert\<close> aborts the process: the result is \<open>Inl AssertionFailed\<close>
  together with the state reached at the assertion. The operator \<^verbatim>\<open>||\<close> does not
  validate the private key when the public key was rejected.
\<close>

definition ProfileSignatureValidate ::
  "('r, 'sk, 'vk) cryptolib \<Rightarrow> 'sk \<Rightarrow> 'vk \<Rightarrow> string \<Rightarrow> size_t \<Rightarrow> string \<Rightarrow> bool
     \<Rightarrow> 'r world \<Rightarrow> (bool, 'r) run" where
  "ProfileSignatureValidate lib priv pub input inputLength description thorough w =
     (let pass = True;
          (pubOk, w) = validate_public lib pub (if thorough then 3 else 2) w;
          (fail, w) =
            (if \<not> pubOk then (True, w)
             else let (privOk, w) = validate_private lib priv (if thorough then 3 else 2) w
                  in (\<not> privOk, w))
      in if \<not> (pass \<and> \<not> fail) then (Inl AssertionFailed, w)
         else
           let (signStartTime, w) = now w;
               ((signature, signatureLength), w) = sign_message lib priv input inputLength w;
               (signEndTime, w) = now w;
               signNanoSeconds = nanoseconds_between signStartTime signEndTime;
               w = cout_endl (generateCSVString description ''sign'' signNanoSeconds) w;
               (verifyStartTime, w) = now w;
               fail = (\<not> VerifyMessage lib pub input inputLength signature signatureLength);
               (verifyEndTime, w) = now w;
               verifyNanoSeconds = nanoseconds_between verifyStartTime verifyEndTime;
               w = cout_endl (generateCSVString description ''verify'' verifyNanoSeconds) w
           in if \<not> (pass \<and> \<not> fail) then (Inl AssertionFailed, w)
              else (Inr pass, w))"

text \<open>\<^verbatim>\<open>assert(pass); return pass;\<close> after the call of the protocol.\<close>

definition assert_pass :: "bool \<Rightarrow> 'r world \<Rightarrow> (bool, 'r) run" where
  "assert_pass pass w = (if pass then (Inr pass, w) else (Inl AssertionFailed, w))"

section \<open>The scheme adapters\<close>

text \<open>
  One function per \<^verbatim>\<open>Validate...\<close> function of the source. The tables are read at
  \<^verbatim>\<open>secLevelIndex\<close>; an index outside the five entries is undefined behaviour in
  C++ and a result of its own here. The parameter \<^verbatim>\<open>const int inputLength\<close> of
  \<^verbatim>\<open>generateDetailedDescription\<close> receives the \<^verbatim>\<open>size_t\<close> narrowed to 32 bits.
  A signer constructor that throws ends the process.
\<close>

definition ValidateRSA ::
  "('r, 'sk, 'vk) cryptolib \<Rightarrow> string \<Rightarrow> size_t \<Rightarrow> nat \<Rightarrow> 'r world \<Rightarrow> (bool, 'r) run" where
  "ValidateRSA lib input inputLength secLevelIndex w =
     (if \<not> secLevelIndex < NUMBER_OF_SECURITY_LENGTHS then (Inl UndefinedBehaviour, w)
      else
        let description = generateDetailedDescription ''RSA''
              (securityLevels ! secLevelIndex) (factorizationGroupSizes ! secLevelIndex)
              (ucast inputLength)
        in and_then
             (generate_signer lib (RSASSA_PKCS1v15_MD2_Signer (factorizationGroupSizes ! secLevelIndex)) w)
             (\<lambda>rsaPriv w.
                let rsaPub = Verifier lib rsaPriv
                in and_then
                     (ProfileSignatureValidate lib rsaPriv rsaPub input inputLength
                        description False w)
                     assert_pass))"

definition ValidateNR ::
  "('r, 'sk, 'vk) cryptolib \<Rightarrow> string \<Rightarrow> size_t \<Rightarrow> nat \<Rightarrow> 'r world \<Rightarrow> (bool, 'r) run" where
  "ValidateNR lib input inputLength secLevelIndex w =
     (if \<not> secLevelIndex < NUMBER_OF_SECURITY_LENGTHS then (Inl UndefinedBehaviour, w)
      else
        let description = generateDetailedDescription ''NR''
              (securityLevels ! secLevelIndex) (factorizationGroupSizes ! secLevelIndex)
              (ucast inputLength)
        in and_then
             (generate_signer lib (NR_SHA_Signer (finiteFieldSubgroupSizes ! secLevelIndex)) w)
             (\<lambda>privS w.
                let privS = Precompute lib privS in
                let pubS = Verifier lib privS
                in and_then
                     (ProfileSignatureValidate lib privS pubS input inputLength
                        description False w)
                     assert_pass))"

definition ValidateDSA ::
  "('r, 'sk, 'vk) cryptolib \<Rightarrow> string \<Rightarrow> size_t \<Rightarrow> nat \<Rightarrow> 'r world \<Rightarrow> (bool, 'r) run" where
  "ValidateDSA lib input inputLength secLevelIndex w =
     (if \<not> secLevelIndex < NUMBER_OF_SECURITY_LENGTHS then (Inl UndefinedBehaviour, w)
      else
        let description = generateDetailedDescription ''DSA''
              (securityLevels ! secLevelIndex) (factorizationGroupSizes ! secLevelIndex)
              (ucast inputLength)
        in and_then
             (generate_signer lib (DSA_Signer (factorizationGroupSizes ! secLevelIndex)) w)
             (\<lambda>priv w.
                let pub = Verifier lib priv
                in and_then
                     (ProfileSignatureValidate lib priv pub input inputLength
                        description False w)
                     assert_pass))"

definition ValidateLUC ::
  "('r, 'sk, 'vk) cryptolib \<Rightarrow> string \<Rightarrow> size_t \<Rightarrow> nat \<Rightarrow> 'r world \<Rightarrow> (bool, 'r) run" where
  "ValidateLUC lib input inputLength secLevelIndex w =
     (if \<not> secLevelIndex < NUMBER_OF_SECURITY_LENGTHS then (Inl UndefinedBehaviour, w)
      else
        let description = generateDetailedDescription ''LUC''
              (securityLevels ! secLevelIndex) (factorizationGroupSizes ! secLevelIndex)
              (ucast inputLength)
        in and_then
             (generate_signer lib (LUCSSA_PKCS1v15_SHA_Signer (factorizationGroupSizes ! secLevelIndex)) w)
             (\<lambda>priv w.
                let pub = Verifier lib priv
                in and_then
                     (ProfileSignatureValidate lib priv pub input inputLength
                        description False w)
                     assert_pass))"

definition ValidateLUC_DL ::
  "('r, 'sk, 'vk) cryptolib \<Rightarrow> string \<Rightarrow> size_t \<Rightarrow> nat \<Rightarrow> 'r world \<Rightarrow> (bool, 'r) run" where
  "ValidateLUC_DL lib input inputLength secLevelIndex w =
     (if \<not> secLevelIndex < NUMBER_OF_SECURITY_LENGTHS then (Inl UndefinedBehaviour, w)
      else
        let description = generateDetailedDescription ''LUC-DL''
              (securityLevels ! secLevelIndex) (finiteFieldSizes ! secLevelIndex)
              (ucast inputLength)
        in and_then
             (generate_signer lib (LUC_HMP_SHA_Signer (finiteFieldSizes ! secLevelIndex)) w)
             (\<lambda>privS w.
                let pubS = Verifier lib privS
                in and_then
                     (ProfileSignatureValidate lib privS pubS input inputLength
                        description False w)
                     assert_pass))"

definition ValidateRabin ::
  "('r, 'sk, 'vk) cryptolib \<Rightarrow> string \<Rightarrow> size_t \<Rightarrow> nat \<Rightarrow> 'r world \<Rightarrow> (bool, 'r) run" where
  "ValidateRabin lib input inputLength secLevelIndex w =
     (if \<not> secLevelIndex < NUMBER_OF_SECURITY_LENGTHS then (Inl UndefinedBehaviour, w)
      else
        let description = generateDetailedDescription ''Rabin''
              (securityLevels ! secLevelIndex) (factorizationGroupSizes ! secLevelIndex)
              (ucast inputLength)
        in and_then
             (generate_signer lib (RabinSS_PSSR_SHA_Signer (factorizationGroupSizes ! secLevelIndex)) w)
             (\<lambda>priv w.
                let pub = Verifier lib priv
                in and_then
                     (ProfileSignatureValidate lib priv pub input inputLength
                        description False w)
                     assert_pass))"

definition ValidateRW ::
  "('r, 'sk, 'vk) cryptolib \<Rightarrow> string \<Rightarrow> size_t \<Rightarrow> nat \<Rightarrow> 'r world \<Rightarrow> (bool, 'r) run" where
  "ValidateRW lib input inputLength secLevelIndex w =
     (if \<not> secLevelIndex < NUMBER_OF_SECURITY_LENGTHS then (Inl UndefinedBehaviour, w)
      else
        let description = generateDetailedDescription ''RW''
              (securityLevels ! secLevelIndex) (factorizationGroupSizes ! secLevelIndex)
              (ucast inputLength)
        in and_then
             (generate_signer lib (RWSS_PSSR_SHA_Signer (factorizationGroupSizes ! secLevelIndex)) w)
             (\<lambda>priv w.
                let pub = Verifier lib priv
                in and_then
                     (ProfileSignatureValidate lib priv pub input inputLength
                        description False w)
                     assert_pass))"

text \<open>
  The domain parameters written out in \<^verbatim>\<open>ValidateECDSA\<close> (from the sample test
  vectors for P1363): the field \<^verbatim>\<open>GF2NT(191, 9, 0)\<close>, the 24-byte coefficients
  \<^verbatim>\<open>a\<close> and \<^verbatim>\<open>b\<close>, the 49-byte encoding of the base point, the order
  \<^verbatim>\<open>n\<close> and the private scalar \<^verbatim>\<open>d\<close>. The point \<^verbatim>\<open>Q\<close> computed there is
  not used afterwards.
\<close>

definition ecdsa_parameters :: ec2n_request where
  "ecdsa_parameters =
     \<lparr>field_GF2NT = (191, 9, 0),
      coeff_a = [0x28, 0x66, 0x53, 0x7B, 0x67, 0x67, 0x52, 0x63, 0x6A, 0x68, 0xF5, 0x65,
                 0x54, 0xE1, 0x26, 0x40, 0x27, 0x6B, 0x64, 0x9E, 0xF7, 0x52, 0x62, 0x67],
      coeff_b = [0x2E, 0x45, 0xEF, 0x57, 0x1F, 0x00, 0x78, 0x6F, 0x67, 0xB0, 0x08, 0x1B,
                 0x94, 0x95, 0xA3, 0xD9, 0x54, 0x62, 0xF5, 0xDE, 0x0A, 0xA1, 0x85, 0xEC],
      encoded_P = [0x04,
                   0x36, 0xB3, 0xDA, 0xF8, 0xA2, 0x32, 0x06, 0xF9, 0xC4, 0xF2, 0x99, 0xD7,
                   0xB2, 0x1A, 0x9C, 0x36, 0x91, 0x37, 0xF2, 0xC8, 0x4A, 0xE1, 0xAA, 0x0D,
                   0x76, 0x5B, 0xE7, 0x34, 0x33, 0xB3, 0xF9, 0x5E, 0x33, 0x29, 0x32, 0xE7,
                   0x0E, 0xA2, 0x45, 0xCA, 0x24, 0x18, 0xEA, 0x0E, 0xF9, 0x80, 0x18, 0xFB],
      order_n = 0x40000000000000000000000004A20E90C39067C893BBB9A5,
      private_d = 0x340562E1DDA332F9D2AEC168249B5696EE39D0ED4D03760F\<rparr>"

definition ValidateECDSA ::
  "('r, 'sk, 'vk) cryptolib \<Rightarrow> string \<Rightarrow> size_t \<Rightarrow> nat \<Rightarrow> 'r world \<Rightarrow> (bool, 'r) run" where
  "ValidateECDSA lib input inputLength secLevelIndex w =
     (if \<not> secLevelIndex < NUMBER_OF_SECURITY_LENGTHS then (Inl UndefinedBehaviour, w)
      else
        let description = generateDetailedDescription ''ECDSA''
              (securityLevels ! secLevelIndex) 1 (ucast inputLength)
        in and_then
             (fixed_signer lib ecdsa_parameters w)
             (\<lambda>priv w.
                let pub = Verifier lib priv
                in and_then
                     (ProfileSignatureValidate lib priv pub input inputLength
                        description False w)
                     assert_pass))"

section \<open>The driver\<close>

definition ProfileSignatureSchemes ::
  "('r, 'sk, 'vk) cryptolib \<Rightarrow> string \<Rightarrow> size_t \<Rightarrow> nat \<Rightarrow> 'r world \<Rightarrow> (unit, 'r) run" where
  "ProfileSignatureSchemes lib inputData inputLength securityLevel w =
     and_then (ValidateRSA lib inputData inputLength securityLevel w) (\<lambda>_ w.
     and_then (ValidateNR lib inputData inputLength securityLevel w) (\<lambda>_ w.
     and_then (ValidateDSA lib inputData inputLength securityLevel w) (\<lambda>_ w.
     and_then (ValidateLUC lib inputData inputLength securityLevel w) (\<lambda>_ w.
     and_then (ValidateLUC_DL lib inputData inputLength securityLevel w) (\<lambda>_ w.
     and_then (ValidateRabin lib inputData inputLength securityLevel w) (\<lambda>_ w.
     and_then (ValidateRW lib inputData inputLength securityLevel w) (\<lambda>_ w.
     and_then (ValidateECDSA lib inputData inputLength securityLevel w) (\<lambda>_ w.
       (Inr (), w)))))))))"

definition showUsage :: "'r world \<Rightarrow> 'r world" where
  "showUsage w =
     (let w = cout_endl ''usage: verifier <security-level> <rng-seed>'' w;
          w = cout_endl ''       security-level: the AES security equivalent level'' w;
          w = cout_endl ''       rng-seed:       the seed for the global RNG'' w
      in w)"

section \<open>The C and C++ library functions used by \<^verbatim>\<open>main\<close>\<close>

text \<open>
  \<^verbatim>\<open>atoi\<close> skips white space, reads an optional sign and the longest run of decimal
  digits; text without digits gives 0. A value that does not fit an \<^verbatim>\<open>int\<close> is
  undefined behaviour in C: \<open>None\<close> here.
\<close>

definition isspace :: "char \<Rightarrow> bool" where
  "isspace c = (c \<in> set [CHR 0x20, CHR 0x09, CHR 0x0A, CHR 0x0B, CHR 0x0C, CHR 0x0D])"

definition isdigit :: "char \<Rightarrow> bool" where
  "isdigit c = (c \<in> set ''0123456789'')"

fun atoi_digits :: "int \<Rightarrow> string \<Rightarrow> int" where
  "atoi_digits acc [] = acc"
| "atoi_digits acc (c # cs) =
     (if isdigit c then atoi_digits (10 * acc + (of_char c - 48)) cs else acc)"

definition atoi :: "string \<Rightarrow> c_int option" where
  "atoi s =
     (let s = dropWhile isspace s;
          v = (case s of
                 [] \<Rightarrow> 0
               | c # cs \<Rightarrow>
                   if c = CHR ''-'' then - atoi_digits 0 cs
                   else if c = CHR ''+'' then atoi_digits 0 cs
                   else atoi_digits 0 s)
      in if - (2 ^ 31) \<le> v \<and> v < 2 ^ 31 then Some (word_of_int v) else None)"

text \<open>
  \<^verbatim>\<open>getline(cin, line)\<close> on the unread input: it fails when no character is left;
  otherwise it extracts the characters before the next line feed and discards the
  line feed. \<open>read_lines\<close> is the loop \<^verbatim>\<open>while (getline(cin, line))
  fullLine.append(line)\<close>.
\<close>

definition getline :: "string \<Rightarrow> (string \<times> string) option" where
  "getline inp =
     (if inp = [] then None
      else Some (takeWhile (\<lambda>c. c \<noteq> CHR 0x0A) inp,
                 drop 1 (dropWhile (\<lambda>c. c \<noteq> CHR 0x0A) inp)))"

function read_lines :: "string \<Rightarrow> string \<Rightarrow> string \<times> string" where
  "read_lines fullLine inp =
     (case getline inp of
        None \<Rightarrow> (fullLine, inp)
      | Some (line, rest) \<Rightarrow> read_lines (fullLine @ line) rest)"
  by pat_completeness auto
termination
proof (relation "measure (\<lambda>(fullLine, inp). length inp)")
  show "wf (measure (\<lambda>(fullLine, inp). length inp))" by simp
next
  fix fullLine inp :: string and x2 x y
  assume g: "getline inp = Some x2" and x2: "(x, y) = x2"
  from g have ne: "inp \<noteq> []" by (auto simp: getline_def split: if_splits)
  from g x2 ne have y: "y = drop 1 (dropWhile (\<lambda>c. c \<noteq> CHR 0x0A) inp)"
    by (auto simp: getline_def)
  have "length (dropWhile (\<lambda>c. c \<noteq> CHR 0x0A) inp) \<le> length inp"
    by (rule length_dropWhile_le)
  with ne y have "length y < length inp" by (cases inp) auto
  then show "((fullLine @ x, y), (fullLine, inp)) \<in> measure (\<lambda>(fullLine, inp). length inp)"
    by simp
qed

declare read_lines.simps [simp del]

text \<open>\<^verbatim>\<open>s.resize(n)\<close>: cut to \<open>n\<close> characters, or filled up with NUL characters.\<close>

definition resize :: "string \<Rightarrow> nat \<Rightarrow> string" where
  "resize s n = take n s @ replicate (n - length s) (CHR 0x00)"

section \<open>The entry point\<close>

text \<open>
  \<^verbatim>\<open>main\<close>, with \<open>argv\<close> the argument vector and \<^verbatim>\<open>argc\<close> its length. The
  result is the exit code. \<^verbatim>\<open>RegisterFactories()\<close> fills the name registry of
  Crypto++, which nothing in this program reads; it is left out.
  \<^verbatim>\<open>int inputLength = fullLine.length()\<close> keeps the low 32 bits of the length, and
  the call of \<^verbatim>\<open>ProfileSignatureSchemes\<close> converts that \<^verbatim>\<open>int\<close> to \<^verbatim>\<open>size_t\<close>.
\<close>

definition main ::
  "('r, 'sk, 'vk) cryptolib \<Rightarrow> string list \<Rightarrow> 'r world \<Rightarrow> (int, 'r) run" where
  "main lib argv w =
     (if length argv \<noteq> 3 then (Inr 1, showUsage w)
      else
        case atoi (argv ! 1) of
          None \<Rightarrow> (Inl UndefinedBehaviour, w)
        | Some securityLevel \<Rightarrow>
            let rngSeed = argv ! 2;
                rngSeedLength = 16;
                (fullLine, rest) = read_lines [] (stdin w);
                w = w\<lparr>stdin := rest\<rparr>;
                inputData = fullLine;
                inputLength = (word_of_nat (length fullLine) :: c_int);
                rngSeed = resize rngSeed rngSeedLength;
                w = w\<lparr>globalRNG := SetKeyWithIV lib (globalRNG w) rngSeed rngSeedLength rngSeed,
                      lib_trace := lib_trace w @ [CallSetKeyWithIV rngSeed rngSeedLength rngSeed]\<rparr>;
                securityIndex = securityIndex_of securityLevel
            in and_then
                 (ProfileSignatureSchemes lib inputData (scast inputLength) securityIndex w)
                 (\<lambda>_ w. (Inr 0, w)))"

section \<open>A library instance for running the model\<close>

text \<open>
  A stand-in for Crypto++ with trivial primitives: generator states, signers and
  verifiers are natural numbers, every randomised call advances the generator by one,
  every key validates and every signature verifies. \<open>rejecting_lib\<close> differs in
  that no signature verifies; \<open>demo_world\<close> is a fresh process with the given
  standard input and a clock that advances 100 ns per reading.
\<close>

definition demo_lib :: "(nat, nat, nat) cryptolib" where
  "demo_lib =
     \<lparr>SetKeyWithIV = (\<lambda>r key n iv. length key),
      GenerateSigner = (\<lambda>req r. Some (r, Suc r)),
      FixedSigner = (\<lambda>req. Some 0),
      Precompute = (\<lambda>sk. sk),
      Verifier = (\<lambda>sk. sk),
      ValidatePublic = (\<lambda>vk r level. (True, Suc r)),
      ValidatePrivate = (\<lambda>sk r level. (True, Suc r)),
      SignMessage = (\<lambda>sk r input inputLength. (([], 0), Suc r)),
      VerifyMessage = (\<lambda>vk input inputLength signature signatureLength. True)\<rparr>"

definition rejecting_lib :: "(nat, nat, nat) cryptolib" where
  "rejecting_lib =
     demo_lib\<lparr>VerifyMessage := (\<lambda>vk input inputLength signature signatureLength. False)\<rparr>"

definition demo_world :: "string \<Rightarrow> nat world" where
  "demo_world inp =
     \<lparr>stdin = inp, stdout = [], steady_clock = (\<lambda>k. 100 * int k), clock_reads = 0,
      globalRNG = 0, lib_trace = []\<rparr>"

section \<open>Notions used to state the properties\<close>

text \<open>
  \<open>csv_fields\<close> reads a line back as its comma-separated fields.
  \<open>measured_pair description clk c\<close> is the sign line and the verify line of one
  protocol run whose first clock reading is reading number \<open>c\<close> of \<open>clk\<close>, and
  \<open>driver_lines\<close> the sixteen lines of a driver run that goes through all eight
  adapters.
\<close>

fun csv_fields :: "string \<Rightarrow> string list" where
  "csv_fields [] = [[]]"
| "csv_fields (c # cs) =
     (if c = CHR '','' then [] # csv_fields cs
      else (case csv_fields cs of [] \<Rightarrow> [[c]] | f # fs \<Rightarrow> (c # f) # fs))"

definition measured_pair :: "string \<Rightarrow> (nat \<Rightarrow> int) \<Rightarrow> nat \<Rightarrow> string list" where
  "measured_pair description clk c =
     [generateCSVString description ''sign'' (nanoseconds_between (clk c) (clk (Suc c))),
      generateCSVString description ''verify''
        (nanoseconds_between (clk (Suc (Suc c))) (clk (Suc (Suc (Suc c)))))]"

definition driver_lines :: "size_t \<Rightarrow> nat \<Rightarrow> (nat \<Rightarrow> int) \<Rightarrow> nat \<Rightarrow> string list" where
  "driver_lines inputLength i clk c =
     measured_pair (generateDetailedDescription ''RSA'' (securityLevels ! i)
       (factorizationGroupSizes ! i) (ucast inputLength)) clk c @
     measured_pair (generateDetailedDescription ''NR'' (securityLevels ! i)
       (factorizationGroupSizes ! i) (ucast inputLength)) clk (c + 4) @
     measured_pair (generateDetailedDescription ''DSA'' (securityLevels ! i)
       (factorizationGroupSizes ! i) (ucast inputLength)) clk (c + 8) @
     measured_pair (generateDetailedDescription ''LUC'' (securityLevels ! i)
       (factorizationGroupSizes ! i) (ucast inputLength)) clk (c + 12) @
     measured_pair (generateDetailedDescription ''LUC-DL'' (securityLevels ! i)
       (finiteFieldSizes ! i) (ucast inputLength)) clk (c + 16) @
     measured_pair (generateDetailedDescription ''Rabin'' (securityLevels ! i)
       (factorizationGroupSizes ! i) (ucast inputLength)) clk (c + 20) @
     measured_pair (generateDetailedDescription ''RW'' (securityLevels ! i)
       (factorizationGroupSizes ! i) (ucast inputLength)) clk (c + 24) @
     measured_pair (generateDetailedDescription ''ECDSA'' (securityLevels ! i)
       1 (ucast inputLength)) clk (c + 28)"

text \<open>
  The calls of the trace that construct a signer, and the trace entry of a
  constructor call.
\<close>

fun builds_key :: "'r libcall \<Rightarrow> bool" where
  "builds_key (CallGenerateSigner req r) = True"
| "builds_key (CallFixedSigner req) = True"
| "builds_key _ = False"

fun signer_call :: "keygen_request + ec2n_request \<Rightarrow> 'r \<Rightarrow> 'r libcall" where
  "signer_call (Inl g) r = CallGenerateSigner g r"
| "signer_call (Inr f) r = CallFixedSigner f"

text \<open>
  All eight adapters have one shape: construct a signer, possibly prepare it, derive
  the verifier, run the protocol, assert the result. \<open>profile_with\<close> is that shape;
  each adapter is shown equal to an instance of it below.
\<close>

definition make_signer ::
  "('r, 'sk, 'vk) cryptolib \<Rightarrow> keygen_request + ec2n_request \<Rightarrow> 'r world \<Rightarrow> ('sk, 'r) run" where
  "make_signer lib req w =
     (case req of Inl g \<Rightarrow> generate_signer lib g w | Inr f \<Rightarrow> fixed_signer lib f w)"

definition profile_with ::
  "('r, 'sk, 'vk) cryptolib \<Rightarrow> keygen_request + ec2n_request \<Rightarrow> ('sk \<Rightarrow> 'sk) \<Rightarrow> string \<Rightarrow> size_t
     \<Rightarrow> string \<Rightarrow> 'r world \<Rightarrow> (bool, 'r) run" where
  "profile_with lib req prep input inputLength description w =
     and_then (make_signer lib req w)
       (\<lambda>priv w.
          and_then
            (ProfileSignatureValidate lib (prep priv) (Verifier lib (prep priv)) input inputLength
               description False w)
            assert_pass)"

text \<open>
  A library whose primitives work: every constructor the program calls returns a
  signer, every key validates, and a signature verifies under the verifier derived
  from the signer that made it.
\<close>

definition functioning :: "('r, 'sk, 'vk) cryptolib \<Rightarrow> bool" where
  "functioning lib \<longleftrightarrow>
     (\<forall>g r. GenerateSigner lib g r \<noteq> None) \<and>
     FixedSigner lib ecdsa_parameters \<noteq> None \<and>
     (\<forall>vk r level. fst (ValidatePublic lib vk r level)) \<and>
     (\<forall>sk r level. fst (ValidatePrivate lib sk r level)) \<and>
     (\<forall>sk r input inputLength.
        VerifyMessage lib (Verifier lib sk) input inputLength
          (fst (fst (SignMessage lib sk r input inputLength)))
          (snd (fst (SignMessage lib sk r input inputLength))))"

text \<open>
  Two states that differ at most in the clock and in the last field (the elapsed
  nanoseconds) of the lines written.
\<close>

definition same_but_timing :: "'r world \<Rightarrow> 'r world \<Rightarrow> bool" where
  "same_but_timing w1 w2 \<longleftrightarrow>
     stdin w1 = stdin w2 \<and>
     map (\<lambda>l. butlast (csv_fields l)) (stdout w1) = map (\<lambda>l. butlast (csv_fields l)) (stdout w2) \<and>
     clock_reads w1 = clock_reads w2 \<and>
     globalRNG w1 = globalRNG w2 \<and>
     lib_trace w1 = lib_trace w2"

text \<open>
  Two runs that return the same result in states that differ at most in timing;
  a state reached from another by writing further lines and making further library
  calls only; and the state in which \<^verbatim>\<open>main\<close> starts the driver: standard input
  read to its end and the generator keyed with the seed resized to 16 bytes, as key
  and as initialisation vector.
\<close>

definition same_run :: "('a, 'r) run \<Rightarrow> ('a, 'r) run \<Rightarrow> bool" where
  "same_run r1 r2 \<longleftrightarrow> fst r1 = fst r2 \<and> same_but_timing (snd r1) (snd r2)"

definition only_appends :: "'r world \<Rightarrow> 'r world \<Rightarrow> bool" where
  "only_appends w w' \<longleftrightarrow>
     (\<exists>ext. stdout w' = stdout w @ ext) \<and> (\<exists>ext. lib_trace w' = lib_trace w @ ext) \<and>
     steady_clock w' = steady_clock w \<and> stdin w' = stdin w"

definition seeded :: "('r, 'sk, 'vk) cryptolib \<Rightarrow> string \<Rightarrow> 'r world \<Rightarrow> 'r world" where
  "seeded lib rngSeed w =
     w\<lparr>stdin := [],
       globalRNG := SetKeyWithIV lib (globalRNG w) (resize rngSeed 16) 16 (resize rngSeed 16),
       lib_trace := lib_trace w @ [CallSetKeyWithIV (resize rngSeed 16) 16 (resize rngSeed 16)]\<rparr>"

section \<open>Decimal strings and CSV fields\<close>

lemma digit_char_in: "d < 10 \<Longrightarrow> digit_char d \<in> set ''0123456789''"
proof -
  assume "d < 10"
  then have "d \<in> {0,1,2,3,4,5,6,7,8,9}" by auto
  then show ?thesis by (auto simp: digit_char_def)
qed

lemma to_string_nat_digits: "set (to_string_nat n) \<subseteq> set ''0123456789''"
proof (induction n rule: to_string_nat.induct)
  case (1 n)
  show ?case
  proof (cases "n < 10")
    case True
    then show ?thesis using digit_char_in [of n] by (subst to_string_nat.simps) simp
  next
    case False
    have "n mod 10 < 10" by simp
    from digit_char_in [OF this] 1 [OF False] False show ?thesis
      by (subst to_string_nat.simps) simp
  qed
qed

lemma to_string_nat_nonempty: "to_string_nat n \<noteq> []"
  by (subst to_string_nat.simps) simp

lemma to_string_nat_no_comma: "CHR '','' \<notin> set (to_string_nat n)"
  using to_string_nat_digits [of n] by auto

lemma to_string_int_no_comma: "CHR '','' \<notin> set (to_string_int v)"
  using to_string_nat_no_comma by (simp add: to_string_int_def)

lemma to_string_size_t_no_comma: "CHR '','' \<notin> set (to_string_size_t v)"
  using to_string_nat_no_comma by (simp add: to_string_size_t_def)

lemma csv_fields_nonempty: "csv_fields s \<noteq> []"
  by (induction s) (auto split: list.splits)

lemma csv_fields_single: "CHR '','' \<notin> set a \<Longrightarrow> csv_fields a = [a]"
  by (induction a) (auto split: list.splits)

lemma csv_fields_first: "CHR '','' \<notin> set a \<Longrightarrow> csv_fields (a @ CHR '','' # b) = a # csv_fields b"
  by (induction a) (auto split: list.splits)

lemma csv_fields_last:
  "CHR '','' \<notin> set b \<Longrightarrow> csv_fields (a @ CHR '','' # b) = csv_fields a @ [b]"
proof (induction a)
  case Nil
  then show ?case by (simp add: csv_fields_single)
next
  case (Cons c a)
  then show ?case using csv_fields_nonempty [of a]
    by (cases "csv_fields a") auto
qed

lemma csv_fields_line:
  assumes "CHR '','' \<notin> set name" "CHR '','' \<notin> set operation"
  shows "csv_fields (generateCSVString (generateDetailedDescription name sl kl il) operation d)
         = [name, to_string_int sl, to_string_int kl, to_string_int il, operation, to_string_size_t d]"
  using assms
  by (simp add: generateCSVString_def generateDetailedDescription_def csv_fields_first
      csv_fields_single to_string_int_no_comma to_string_size_t_no_comma)

lemma read_lines_filter:
  "read_lines fullLine inp = (fullLine @ filter (\<lambda>c. c \<noteq> CHR 0x0A) inp, [])"
proof (induction fullLine inp rule: read_lines.induct)
  case (1 fullLine inp)
  show ?case
  proof (cases "inp = []")
    case True
    then show ?thesis by (subst read_lines.simps) (simp add: getline_def)
  next
    case False
    let ?l = "takeWhile (\<lambda>c. c \<noteq> CHR 0x0A) inp"
    let ?r = "drop 1 (dropWhile (\<lambda>c. c \<noteq> CHR 0x0A) inp)"
    have g: "getline inp = Some (?l, ?r)" using False by (simp add: getline_def)
    have ih: "read_lines (fullLine @ ?l) ?r = ((fullLine @ ?l) @ filter (\<lambda>c. c \<noteq> CHR 0x0A) ?r, [])"
      by (rule 1 [OF g refl])
    have split: "filter (\<lambda>c. c \<noteq> CHR 0x0A) inp = ?l @ filter (\<lambda>c. c \<noteq> CHR 0x0A) ?r"
    proof -
      have "inp = ?l @ dropWhile (\<lambda>c. c \<noteq> CHR 0x0A) inp" by simp
      then have "filter (\<lambda>c. c \<noteq> CHR 0x0A) inp = filter (\<lambda>c. c \<noteq> CHR 0x0A) ?l @ filter (\<lambda>c. c \<noteq> CHR 0x0A) (dropWhile (\<lambda>c. c \<noteq> CHR 0x0A) inp)"
        by (metis filter_append)
      moreover have "filter (\<lambda>c. c \<noteq> CHR 0x0A) ?l = ?l"
        by (auto simp: filter_id_conv dest: set_takeWhileD)
      moreover have "filter (\<lambda>c. c \<noteq> CHR 0x0A) (dropWhile (\<lambda>c. c \<noteq> CHR 0x0A) inp) = filter (\<lambda>c. c \<noteq> CHR 0x0A) ?r"
      proof (cases "dropWhile (\<lambda>c. c \<noteq> CHR 0x0A) inp")
        case Nil
        show ?thesis unfolding Nil by simp
      next
        case (Cons a as)
        then have "a = CHR 0x0A" using hd_dropWhile [of "\<lambda>c. c \<noteq> CHR 0x0A" inp] by auto
        then show ?thesis unfolding Cons by simp
      qed
      ultimately show ?thesis by simp
    qed
    show ?thesis using g ih split by (subst read_lines.simps) simp
  qed
qed

section \<open>The protocol and the adapters, step by step\<close>

lemmas psv_defs = ProfileSignatureValidate_def validate_public_def validate_private_def
  sign_message_def now_def cout_endl_def Let_def

lemma PSV_frame:
  "ProfileSignatureValidate lib priv pub input len desc th w = (res, w') \<Longrightarrow>
   stdin w' = stdin w \<and> steady_clock w' = steady_clock w"
  unfolding psv_defs by (auto split: prod.splits if_splits)

lemma PSV_Inr:
  "ProfileSignatureValidate lib priv pub input len desc th w = (Inr b, w') \<Longrightarrow>
   b \<and> stdout w' = stdout w @ measured_pair desc (steady_clock w) (clock_reads w)
     \<and> clock_reads w' = clock_reads w + 4"
  unfolding psv_defs measured_pair_def by (auto split: prod.splits if_splits)

lemma PSV_stdout:
  "ProfileSignatureValidate lib priv pub input len desc th w = (res, w') \<Longrightarrow>
   stdout w' = stdout w \<or> stdout w' = stdout w @ measured_pair desc (steady_clock w) (clock_reads w)"
  unfolding psv_defs measured_pair_def by (auto split: prod.splits if_splits)

lemma PSV_trace:
  "ProfileSignatureValidate lib priv pub input len desc th w = (res, w') \<Longrightarrow>
   \<exists>ext. lib_trace w' = lib_trace w @ ext \<and> filter builds_key ext = []"
  unfolding psv_defs by (auto split: prod.splits if_splits)

lemma and_then_InrD:
  "and_then m f = (Inr b, w') \<Longrightarrow> \<exists>a w1. m = (Inr a, w1) \<and> f a w1 = (Inr b, w')"
  by (auto simp: and_then_def split: prod.splits sum.splits)

lemma and_then_Inr: "and_then (Inr a, w1) f = f a w1"
  by (simp add: and_then_def)

lemma and_then_Inl: "and_then (Inl e, w1) f = (Inl e, w1)"
  by (simp add: and_then_def)

lemma make_signer_cases:
  "make_signer lib req w = (res, w1) \<Longrightarrow>
   stdin w1 = stdin w \<and> stdout w1 = stdout w \<and> steady_clock w1 = steady_clock w \<and>
   clock_reads w1 = clock_reads w \<and>
   lib_trace w1 = lib_trace w @ [signer_call req (globalRNG w)]"
  by (cases req)
     (auto simp: make_signer_def generate_signer_def fixed_signer_def Let_def
           split: option.splits)

lemma assert_pass_cases: "assert_pass b w = (res, w') \<Longrightarrow> w' = w \<and> (res = Inr True \<and> b \<or> res = Inl AssertionFailed \<and> \<not> b)"
  by (auto simp: assert_pass_def split: if_splits)

lemma profile_with_Inr:
  assumes "profile_with lib req prep input len desc w = (Inr b, w')"
  shows "stdout w' = stdout w @ measured_pair desc (steady_clock w) (clock_reads w) \<and>
         clock_reads w' = clock_reads w + 4 \<and> steady_clock w' = steady_clock w"
proof -
  from assms obtain priv w1 where m: "make_signer lib req w = (Inr priv, w1)"
    and r: "and_then (ProfileSignatureValidate lib (prep priv) (Verifier lib (prep priv)) input len desc False w1) assert_pass = (Inr b, w')"
    unfolding profile_with_def by (blast dest: and_then_InrD)
  from r obtain b2 w2 where p: "ProfileSignatureValidate lib (prep priv) (Verifier lib (prep priv)) input len desc False w1 = (Inr b2, w2)"
    and a: "assert_pass b2 w2 = (Inr b, w')"
    by (blast dest: and_then_InrD)
  from assert_pass_cases [OF a] have "w' = w2" by simp
  with make_signer_cases [OF m] PSV_Inr [OF p] PSV_frame [OF p] show ?thesis by simp
qed

lemma profile_with_any:
  assumes "profile_with lib req prep input len desc w = (res, w')"
  shows "stdin w' = stdin w \<and> steady_clock w' = steady_clock w \<and>
         (stdout w' = stdout w \<or>
          stdout w' = stdout w @ measured_pair desc (steady_clock w) (clock_reads w)) \<and>
         (\<exists>ext. lib_trace w' = lib_trace w @ signer_call req (globalRNG w) # ext \<and>
                filter builds_key ext = [])"
proof -
  obtain r1 w1 where m: "make_signer lib req w = (r1, w1)" by (cases "make_signer lib req w")
  note ms = make_signer_cases [OF m]
  show ?thesis
  proof (cases r1)
    case (Inl e)
    with m assms have "w' = w1" by (simp add: profile_with_def and_then_def)
    with ms show ?thesis by simp
  next
    case (Inr priv)
    obtain r2 w2 where p: "ProfileSignatureValidate lib (prep priv) (Verifier lib (prep priv)) input len desc False w1 = (r2, w2)"
      by (cases "ProfileSignatureValidate lib (prep priv) (Verifier lib (prep priv)) input len desc False w1")
    have "w' = w2"
      using assms m Inr p
      by (cases r2) (auto simp: profile_with_def and_then_def assert_pass_def split: if_splits)
    with ms PSV_frame [OF p] PSV_stdout [OF p] PSV_trace [OF p] show ?thesis by auto
  qed
qed

lemma PSV_functioning:
  assumes "functioning lib"
  shows "\<exists>w'. ProfileSignatureValidate lib priv (Verifier lib priv) input len desc th w = (Inr True, w')"
proof -
  from assms have vp: "\<And>vk r level. fst (ValidatePublic lib vk r level)"
    and vs: "\<And>sk r level. fst (ValidatePrivate lib sk r level)"
    and sv: "\<And>sk r input inputLength.
        VerifyMessage lib (Verifier lib sk) input inputLength
          (fst (fst (SignMessage lib sk r input inputLength)))
          (snd (fst (SignMessage lib sk r input inputLength)))"
    unfolding functioning_def by blast+
  let ?lvl = "if th then 3 else 2 :: nat"
  obtain r1 where a: "ValidatePublic lib (Verifier lib priv) (globalRNG w) ?lvl = (True, r1)"
    using vp [of "Verifier lib priv" "globalRNG w" ?lvl]
    by (cases "ValidatePublic lib (Verifier lib priv) (globalRNG w) ?lvl") auto
  obtain r2 where b: "ValidatePrivate lib priv r1 ?lvl = (True, r2)"
    using vs [of priv r1 ?lvl] by (cases "ValidatePrivate lib priv r1 ?lvl") auto
  obtain sg sl r3 where c: "SignMessage lib priv r2 input len = ((sg, sl), r3)"
    by (metis surj_pair)
  have d: "VerifyMessage lib (Verifier lib priv) input len sg sl"
    using sv [where sk = priv and r = r2 and input = input and inputLength = len] c by simp
  show ?thesis
    unfolding psv_defs using a b c d by (cases th) auto
qed

lemma profile_with_functioning:
  assumes "functioning lib" and "\<forall>f. req = Inr f \<longrightarrow> f = ecdsa_parameters"
  shows "\<exists>w'. profile_with lib req prep input len desc w = (Inr True, w')"
proof -
  from assms have "\<exists>priv w1. make_signer lib req w = (Inr priv, w1)"
    by (cases req)
       (auto simp: functioning_def make_signer_def generate_signer_def fixed_signer_def Let_def
             split: option.splits)
  then obtain priv w1 where m: "make_signer lib req w = (Inr priv, w1)" by blast
  from PSV_functioning [OF assms(1)] obtain w2 where
    "ProfileSignatureValidate lib (prep priv) (Verifier lib (prep priv)) input len desc False w1 = (Inr True, w2)"
    by blast
  with m show ?thesis by (simp add: profile_with_def and_then_def assert_pass_def)
qed

lemma ValidateRSA_profile:
  "i < NUMBER_OF_SECURITY_LENGTHS \<Longrightarrow> ValidateRSA lib input len i w =
     profile_with lib (Inl (RSASSA_PKCS1v15_MD2_Signer (factorizationGroupSizes ! i))) (\<lambda>sk. sk)
       input len (generateDetailedDescription ''RSA'' (securityLevels ! i)
         (factorizationGroupSizes ! i) (ucast len)) w"
  by (simp add: ValidateRSA_def profile_with_def make_signer_def)

lemma ValidateNR_profile:
  "i < NUMBER_OF_SECURITY_LENGTHS \<Longrightarrow> ValidateNR lib input len i w =
     profile_with lib (Inl (NR_SHA_Signer (finiteFieldSubgroupSizes ! i))) (Precompute lib)
       input len (generateDetailedDescription ''NR'' (securityLevels ! i)
         (factorizationGroupSizes ! i) (ucast len)) w"
  by (simp add: ValidateNR_def profile_with_def make_signer_def Let_def)

lemma ValidateDSA_profile:
  "i < NUMBER_OF_SECURITY_LENGTHS \<Longrightarrow> ValidateDSA lib input len i w =
     profile_with lib (Inl (DSA_Signer (factorizationGroupSizes ! i))) (\<lambda>sk. sk)
       input len (generateDetailedDescription ''DSA'' (securityLevels ! i)
         (factorizationGroupSizes ! i) (ucast len)) w"
  by (simp add: ValidateDSA_def profile_with_def make_signer_def)

lemma ValidateLUC_profile:
  "i < NUMBER_OF_SECURITY_LENGTHS \<Longrightarrow> ValidateLUC lib input len i w =
     profile_with lib (Inl (LUCSSA_PKCS1v15_SHA_Signer (factorizationGroupSizes ! i))) (\<lambda>sk. sk)
       input len (generateDetailedDescription ''LUC'' (securityLevels ! i)
         (factorizationGroupSizes ! i) (ucast len)) w"
  by (simp add: ValidateLUC_def profile_with_def make_signer_def)

lemma ValidateLUC_DL_profile:
  "i < NUMBER_OF_SECURITY_LENGTHS \<Longrightarrow> ValidateLUC_DL lib input len i w =
     profile_with lib (Inl (LUC_HMP_SHA_Signer (finiteFieldSizes ! i))) (\<lambda>sk. sk)
       input len (generateDetailedDescription ''LUC-DL'' (securityLevels ! i)
         (finiteFieldSizes ! i) (ucast len)) w"
  by (simp add: ValidateLUC_DL_def profile_with_def make_signer_def)

lemma ValidateRabin_profile:
  "i < NUMBER_OF_SECURITY_LENGTHS \<Longrightarrow> ValidateRabin lib input len i w =
     profile_with lib (Inl (RabinSS_PSSR_SHA_Signer (factorizationGroupSizes ! i))) (\<lambda>sk. sk)
       input len (generateDetailedDescription ''Rabin'' (securityLevels ! i)
         (factorizationGroupSizes ! i) (ucast len)) w"
  by (simp add: ValidateRabin_def profile_with_def make_signer_def)

lemma ValidateRW_profile:
  "i < NUMBER_OF_SECURITY_LENGTHS \<Longrightarrow> ValidateRW lib input len i w =
     profile_with lib (Inl (RWSS_PSSR_SHA_Signer (factorizationGroupSizes ! i))) (\<lambda>sk. sk)
       input len (generateDetailedDescription ''RW'' (securityLevels ! i)
         (factorizationGroupSizes ! i) (ucast len)) w"
  by (simp add: ValidateRW_def profile_with_def make_signer_def)

lemma ValidateECDSA_profile:
  "i < NUMBER_OF_SECURITY_LENGTHS \<Longrightarrow> ValidateECDSA lib input len i w =
     profile_with lib (Inr ecdsa_parameters) (\<lambda>sk. sk)
       input len (generateDetailedDescription ''ECDSA'' (securityLevels ! i) 1 (ucast len)) w"
  by (simp add: ValidateECDSA_def profile_with_def make_signer_def)

lemmas adapter_profiles = ValidateRSA_profile ValidateNR_profile ValidateDSA_profile
  ValidateLUC_profile ValidateLUC_DL_profile ValidateRabin_profile ValidateRW_profile
  ValidateECDSA_profile

lemma and_then_InrE:
  assumes "and_then m f = (Inr b, w')"
  obtains a w1 where "m = (Inr a, w1)" and "f a w1 = (Inr b, w')"
  using assms by (auto simp: and_then_def split: prod.splits sum.splits)

lemma driver_bound:
  assumes "ProfileSignatureSchemes lib input len i w = (Inr u, w')"
  shows "i < NUMBER_OF_SECURITY_LENGTHS"
proof (rule ccontr)
  assume "\<not> i < NUMBER_OF_SECURITY_LENGTHS"
  then have "ProfileSignatureSchemes lib input len i w = (Inl UndefinedBehaviour, w)"
    by (simp add: ProfileSignatureSchemes_def ValidateRSA_def and_then_def)
  with assms show False by simp
qed

lemma driver_Inr:
  assumes "ProfileSignatureSchemes lib input len i w = (Inr u, w')"
  shows "stdout w' = stdout w @ driver_lines len i (steady_clock w) (clock_reads w) \<and>
         clock_reads w' = clock_reads w + 32 \<and> steady_clock w' = steady_clock w"
proof -
  note i = driver_bound [OF assms]
  show ?thesis
    using assms unfolding ProfileSignatureSchemes_def adapter_profiles [OF i]
    apply (elim and_then_InrE)
    apply (drule profile_with_Inr)+
    apply (simp add: driver_lines_def add.commute)
    done
qed

lemma securityIndex_of_eq:
  "securityIndex_of l =
     (if l = 80 then 0 else if l = 112 then 1 else if l = 128 then 2
      else if l = 192 then 3 else if l = 256 then 4 else 0)"
  by (simp add: securityIndex_of_def securityIndex_loop.simps securityLevels_def
      NUMBER_OF_SECURITY_LENGTHS_def)

lemma securityIndex_of_earlier:
  assumes "j < securityIndex_of l"
  shows "securityLevels ! j \<noteq> l"
proof -
  have "j = 0 \<or> j = 1 \<or> j = 2 \<or> j = 3 \<or> 4 \<le> j" by arith
  then show ?thesis
    using assms by (auto simp: securityIndex_of_eq securityLevels_def split: if_splits)
qed

lemma csv_fields_pair:
  assumes "CHR '','' \<notin> set name"
  shows "map (\<lambda>l. (csv_fields l ! 0, csv_fields l ! 4))
           (measured_pair (generateDetailedDescription name sl kl il) clk c)
         = [(name, ''sign''), (name, ''verify'')]"
  using assms by (simp add: measured_pair_def csv_fields_line)

lemma and_then_total:
  assumes "\<exists>a w1. m = (Inr a, w1)" and "\<And>a w1. \<exists>b w'. f a w1 = (Inr b, w')"
  shows "\<exists>b w'. and_then m f = (Inr b, w')"
  using assms by (auto simp: and_then_def)

lemma profile_with_total:
  assumes "functioning lib" and "\<forall>f. req = Inr f \<longrightarrow> f = ecdsa_parameters"
  shows "\<exists>b w'. profile_with lib req prep input len desc w = (Inr b, w')"
  using profile_with_functioning [OF assms] by blast

lemma driver_functioning:
  assumes f: "functioning lib" and i: "i < NUMBER_OF_SECURITY_LENGTHS"
  shows "\<exists>w'. ProfileSignatureSchemes lib input len i w = (Inr (), w')"
proof -
  have "\<exists>b w'. ProfileSignatureSchemes lib input len i w = (Inr b, w')"
    unfolding ProfileSignatureSchemes_def adapter_profiles [OF i]
    by (intro and_then_total profile_with_total [OF f]) auto
  then show ?thesis by simp
qed

lemma demo_functioning: "functioning demo_lib"
  by (simp add: functioning_def demo_lib_def)

section \<open>Independence of the clock, and append-only output\<close>

lemma PSV_eq:
  "ProfileSignatureValidate lib priv pub input len desc th w =
     (let level = (if th then 3 else 2);
          vp = ValidatePublic lib pub (globalRNG w) level;
          vs = ValidatePrivate lib priv (snd vp) level;
          sg = SignMessage lib priv (snd vs) input len
      in if \<not> fst vp then
           (Inl AssertionFailed,
            w\<lparr>globalRNG := snd vp,
              lib_trace := lib_trace w @ [CallValidatePublic level (globalRNG w)]\<rparr>)
         else if \<not> fst vs then
           (Inl AssertionFailed,
            w\<lparr>globalRNG := snd vs,
              lib_trace := lib_trace w @
                [CallValidatePublic level (globalRNG w), CallValidatePrivate level (snd vp)]\<rparr>)
         else
           (if VerifyMessage lib pub input len (fst (fst sg)) (snd (fst sg)) then Inr True
            else Inl AssertionFailed,
            w\<lparr>globalRNG := snd sg,
              lib_trace := lib_trace w @
                [CallValidatePublic level (globalRNG w), CallValidatePrivate level (snd vp),
                 CallSignMessage input len (snd vs)],
              clock_reads := clock_reads w + 4,
              stdout := stdout w @ measured_pair desc (steady_clock w) (clock_reads w)\<rparr>))"
  by (simp add: psv_defs measured_pair_def case_prod_beta)

lemma csv_butlast:
  "butlast (csv_fields (generateCSVString description operation d)) =
   csv_fields (description @ CHR '','' # operation)"
proof -
  have "generateCSVString description operation d =
        (description @ CHR '','' # operation) @ CHR '','' # to_string_size_t d"
    by (simp add: generateCSVString_def)
  then show ?thesis
    by (simp only: csv_fields_last [OF to_string_size_t_no_comma] butlast_snoc)
qed

lemma and_then_same:
  assumes "same_run m1 m2"
    and "\<And>a w1 w2. same_but_timing w1 w2 \<Longrightarrow> same_run (f a w1) (f a w2)"
  shows "same_run (and_then m1 f) (and_then m2 f)"
proof -
  obtain r w1 w2 where m: "m1 = (r, w1)" "m2 = (r, w2)" and w: "same_but_timing w1 w2"
    using assms(1) by (cases m1, cases m2) (auto simp: same_run_def)
  show ?thesis
  proof (cases r)
    case (Inl e)
    with m w show ?thesis by (simp add: and_then_def same_run_def)
  next
    case (Inr a)
    with m assms(2) [OF w, of a] show ?thesis by (simp add: and_then_def)
  qed
qed

lemma make_signer_same:
  "same_but_timing w1 w2 \<Longrightarrow> same_run (make_signer lib req w1) (make_signer lib req w2)"
  by (cases req)
     (auto simp: same_run_def same_but_timing_def make_signer_def generate_signer_def
        fixed_signer_def Let_def split: option.splits)

lemma assert_pass_same:
  "same_but_timing w1 w2 \<Longrightarrow> same_run (assert_pass b w1) (assert_pass b w2)"
  by (simp add: same_run_def assert_pass_def)

lemma PSV_same:
  assumes "same_but_timing w1 w2"
  shows "same_run (ProfileSignatureValidate lib priv pub input len desc th w1)
                  (ProfileSignatureValidate lib priv pub input len desc th w2)"
proof -
  from assms have g: "globalRNG w1 = globalRNG w2" by (simp add: same_but_timing_def)
  show ?thesis
    using assms unfolding PSV_eq g same_run_def same_but_timing_def
    by (simp add: Let_def measured_pair_def csv_butlast)
qed

lemma profile_with_same:
  "same_but_timing w1 w2 \<Longrightarrow>
   same_run (profile_with lib req prep input len desc w1)
            (profile_with lib req prep input len desc w2)"
  unfolding profile_with_def
  by (intro and_then_same make_signer_same PSV_same assert_pass_same)

lemma same_run_Inr: "same_but_timing w1 w2 \<Longrightarrow> same_run (Inr a, w1) (Inr a, w2)"
  by (simp add: same_run_def)

lemma adapters_same_conj:
  assumes "same_but_timing w1 w2"
  shows "same_run (ValidateRSA lib input len i w1) (ValidateRSA lib input len i w2) \<and>
    same_run (ValidateNR lib input len i w1) (ValidateNR lib input len i w2) \<and>
    same_run (ValidateDSA lib input len i w1) (ValidateDSA lib input len i w2) \<and>
    same_run (ValidateLUC lib input len i w1) (ValidateLUC lib input len i w2) \<and>
    same_run (ValidateLUC_DL lib input len i w1) (ValidateLUC_DL lib input len i w2) \<and>
    same_run (ValidateRabin lib input len i w1) (ValidateRabin lib input len i w2) \<and>
    same_run (ValidateRW lib input len i w1) (ValidateRW lib input len i w2) \<and>
    same_run (ValidateECDSA lib input len i w1) (ValidateECDSA lib input len i w2)"
proof (cases "i < NUMBER_OF_SECURITY_LENGTHS")
  case True
  show ?thesis
    unfolding adapter_profiles [OF True] by (intro conjI profile_with_same assms)
next
  case False
  with assms show ?thesis
    by (simp add: ValidateRSA_def ValidateNR_def ValidateDSA_def ValidateLUC_def
        ValidateLUC_DL_def ValidateRabin_def ValidateRW_def ValidateECDSA_def same_run_def)
qed

lemmas adapters_same =
  adapters_same_conj [THEN conjunct1]
  adapters_same_conj [THEN conjunct2, THEN conjunct1]
  adapters_same_conj [THEN conjunct2, THEN conjunct2, THEN conjunct1]
  adapters_same_conj [THEN conjunct2, THEN conjunct2, THEN conjunct2, THEN conjunct1]
  adapters_same_conj [THEN conjunct2, THEN conjunct2, THEN conjunct2, THEN conjunct2,
    THEN conjunct1]
  adapters_same_conj [THEN conjunct2, THEN conjunct2, THEN conjunct2, THEN conjunct2,
    THEN conjunct2, THEN conjunct1]
  adapters_same_conj [THEN conjunct2, THEN conjunct2, THEN conjunct2, THEN conjunct2,
    THEN conjunct2, THEN conjunct2, THEN conjunct1]
  adapters_same_conj [THEN conjunct2, THEN conjunct2, THEN conjunct2, THEN conjunct2,
    THEN conjunct2, THEN conjunct2, THEN conjunct2]

lemma driver_same:
  assumes "same_but_timing w1 w2"
  shows "same_run (ProfileSignatureSchemes lib input len i w1)
                  (ProfileSignatureSchemes lib input len i w2)"
  unfolding ProfileSignatureSchemes_def
  by (intro and_then_same adapters_same same_run_Inr assms)

lemma main_run:
  assumes "length argv = 3" and "atoi (argv ! 1) = Some securityLevel"
  shows "main lib argv w =
     and_then
       (ProfileSignatureSchemes lib (filter (\<lambda>c. c \<noteq> CHR 0x0A) (stdin w))
          (scast (word_of_nat (length (filter (\<lambda>c. c \<noteq> CHR 0x0A) (stdin w))) :: c_int))
          (securityIndex_of securityLevel) (seeded lib (argv ! 2) w))
       (\<lambda>_ w. (Inr 0, w))"
  using assms by (simp add: main_def read_lines_filter seeded_def Let_def)

lemma seeded_same:
  "same_but_timing w1 w2 \<Longrightarrow> same_but_timing (seeded lib s w1) (seeded lib s w2)"
  by (simp add: same_but_timing_def seeded_def)

lemma main_same:
  assumes "same_but_timing w1 w2"
  shows "same_run (main lib argv w1) (main lib argv w2)"
proof (cases "length argv = 3")
  case False
  with assms show ?thesis
    by (simp add: main_def showUsage_def cout_endl_def same_run_def same_but_timing_def)
next
  case True
  show ?thesis
  proof (cases "atoi (argv ! 1)")
    case None
    with True assms show ?thesis by (simp add: main_def same_run_def)
  next
    case (Some sl)
    from assms have s: "stdin w1 = stdin w2" by (simp add: same_but_timing_def)
    show ?thesis
      unfolding main_run [OF True Some] s
      by (intro and_then_same driver_same seeded_same same_run_Inr assms)
  qed
qed

lemma only_appends_refl: "only_appends w w"
  by (simp add: only_appends_def)

lemma only_appends_trans: "only_appends w w1 \<Longrightarrow> only_appends w1 w2 \<Longrightarrow> only_appends w w2"
  by (auto simp: only_appends_def)

lemma and_then_only_appends:
  assumes "only_appends w (snd m)" and "\<And>a w1. only_appends w1 (snd (f a w1))"
  shows "only_appends w (snd (and_then m f))"
proof (cases m)
  case (Pair r w1)
  show ?thesis
  proof (cases r)
    case (Inl e)
    with Pair assms(1) show ?thesis by (simp add: and_then_def)
  next
    case (Inr a)
    with Pair assms(1) assms(2) [of w1 a] show ?thesis
      by (auto simp: and_then_def intro: only_appends_trans)
  qed
qed

lemma profile_with_only_appends:
  "only_appends w (snd (profile_with lib req prep input len desc w))"
  using profile_with_any [OF prod.collapse [symmetric], of lib req prep input len desc w]
  by (auto simp: only_appends_def)

lemma profile_with_key_call:
  "filter builds_key
     (drop (length (lib_trace w)) (lib_trace (snd (profile_with lib req prep input len desc w))))
   = [signer_call req (globalRNG w)]"
proof -
  from profile_with_any [OF prod.collapse [symmetric], of lib req prep input len desc w]
  obtain ext where
    "lib_trace (snd (profile_with lib req prep input len desc w)) =
       lib_trace w @ signer_call req (globalRNG w) # ext"
    and "filter builds_key ext = []"
    by blast
  then show ?thesis by (cases req) simp_all
qed

lemma adapters_only_appends_conj:
  "only_appends w (snd (ValidateRSA lib input len i w)) \<and>
   only_appends w (snd (ValidateNR lib input len i w)) \<and>
   only_appends w (snd (ValidateDSA lib input len i w)) \<and>
   only_appends w (snd (ValidateLUC lib input len i w)) \<and>
   only_appends w (snd (ValidateLUC_DL lib input len i w)) \<and>
   only_appends w (snd (ValidateRabin lib input len i w)) \<and>
   only_appends w (snd (ValidateRW lib input len i w)) \<and>
   only_appends w (snd (ValidateECDSA lib input len i w))"
proof (cases "i < NUMBER_OF_SECURITY_LENGTHS")
  case True
  show ?thesis
    unfolding adapter_profiles [OF True] by (intro conjI profile_with_only_appends)
next
  case False
  then show ?thesis
    by (simp add: ValidateRSA_def ValidateNR_def ValidateDSA_def ValidateLUC_def
        ValidateLUC_DL_def ValidateRabin_def ValidateRW_def ValidateECDSA_def only_appends_refl)
qed

lemmas adapters_only_appends =
  adapters_only_appends_conj [THEN conjunct1]
  adapters_only_appends_conj [THEN conjunct2, THEN conjunct1]
  adapters_only_appends_conj [THEN conjunct2, THEN conjunct2, THEN conjunct1]
  adapters_only_appends_conj [THEN conjunct2, THEN conjunct2, THEN conjunct2, THEN conjunct1]
  adapters_only_appends_conj [THEN conjunct2, THEN conjunct2, THEN conjunct2, THEN conjunct2,
    THEN conjunct1]
  adapters_only_appends_conj [THEN conjunct2, THEN conjunct2, THEN conjunct2, THEN conjunct2,
    THEN conjunct2, THEN conjunct1]
  adapters_only_appends_conj [THEN conjunct2, THEN conjunct2, THEN conjunct2, THEN conjunct2,
    THEN conjunct2, THEN conjunct2, THEN conjunct1]
  adapters_only_appends_conj [THEN conjunct2, THEN conjunct2, THEN conjunct2, THEN conjunct2,
    THEN conjunct2, THEN conjunct2, THEN conjunct2]

lemma snd_Inr_only_appends: "only_appends w (snd (Inr a, w))"
  by (simp add: only_appends_refl)

lemma driver_only_appends:
  "only_appends w (snd (ProfileSignatureSchemes lib input len i w))"
  unfolding ProfileSignatureSchemes_def
  by (intro and_then_only_appends adapters_only_appends snd_Inr_only_appends)

lemma securityIndex_of_bound: "securityIndex_of l < NUMBER_OF_SECURITY_LENGTHS"
  by (simp add: securityIndex_of_eq NUMBER_OF_SECURITY_LENGTHS_def)

lemma main_trace:
  assumes "length argv = 3" and "atoi (argv ! 1) = Some securityLevel"
  shows "\<exists>ext. lib_trace (snd (main lib argv w)) =
           lib_trace w @
           CallSetKeyWithIV (resize (argv ! 2) 16) 16 (resize (argv ! 2) 16) # ext"
proof -
  have "only_appends (seeded lib (argv ! 2) w) (snd (main lib argv w))"
    unfolding main_run [OF assms]
    by (intro and_then_only_appends driver_only_appends snd_Inr_only_appends)
  then show ?thesis by (auto simp: only_appends_def seeded_def)
qed

lemma main_functioning:
  assumes "functioning lib" and "length argv = 3" and "atoi (argv ! 1) = Some securityLevel"
  shows "\<exists>w'. main lib argv w = (Inr 0, w') \<and>
           stdout w' = stdout w @
             driver_lines
               (scast (word_of_nat (length (filter (\<lambda>c. c \<noteq> CHR 0x0A) (stdin w))) :: c_int))
               (securityIndex_of securityLevel) (steady_clock w) (clock_reads w)"
proof -
  from driver_functioning [OF assms(1) securityIndex_of_bound]
  obtain w' where d: "ProfileSignatureSchemes lib (filter (\<lambda>c. c \<noteq> CHR 0x0A) (stdin w))
          (scast (word_of_nat (length (filter (\<lambda>c. c \<noteq> CHR 0x0A) (stdin w))) :: c_int))
          (securityIndex_of securityLevel) (seeded lib (argv ! 2) w) = (Inr (), w')"
    by blast
  from driver_Inr [OF d] have "stdout w' = stdout w @
             driver_lines
               (scast (word_of_nat (length (filter (\<lambda>c. c \<noteq> CHR 0x0A) (stdin w))) :: c_int))
               (securityIndex_of securityLevel) (steady_clock w) (clock_reads w)"
    by (simp add: seeded_def)
  with d show ?thesis
    unfolding main_run [OF assms(2,3)] by (simp add: and_then_def)
qed

lemma resize_length: "length (resize s n) = n"
  by (simp add: resize_def)

lemmas demo_eval = demo_lib_def rejecting_lib_def demo_world_def NUMBER_OF_SECURITY_LENGTHS_def
  generate_signer_def fixed_signer_def and_then_def psv_defs assert_pass_def
  generateCSVString_def generateDetailedDescription_def nanoseconds_between_def
  to_string_size_t_def to_string_int_def to_string_nat.simps digit_char_def
  securityLevels_def factorizationGroupSizes_def finiteFieldSizes_def
  finiteFieldSubgroupSizes_def ellipticCurveSizes_def

lemma csv_fields_ecdsa:
  "map (\<lambda>l. (csv_fields l ! 0, csv_fields l ! 1, csv_fields l ! 2))
     (measured_pair (generateDetailedDescription ''ECDSA'' sl 1 il) clk c) =
   [(''ECDSA'', to_string_int sl, ''1''), (''ECDSA'', to_string_int sl, ''1'')]"
proof -
  have "to_string_int 1 = ''1''"
    by (simp add: to_string_int_def to_string_nat.simps digit_char_def)
  then show ?thesis by (simp add: measured_pair_def csv_fields_line)
qed

section \<open>The first line, and the input length field\<close>

lemma first_output:
  assumes m: "stdout (snd m) = [] \<or> (\<exists>xs. stdout (snd m) = x # xs)"
    and i: "\<forall>a. fst m = Inr a \<longrightarrow> (\<exists>xs. stdout (snd m) = x # xs)"
    and f: "\<And>a w1. only_appends w1 (snd (f a w1))"
  shows "stdout (snd (and_then m f)) = [] \<or> hd (stdout (snd (and_then m f))) = x"
proof (cases m)
  case (Pair r w1)
  show ?thesis
  proof (cases r)
    case (Inl e)
    with Pair m show ?thesis by (auto simp: and_then_def)
  next
    case (Inr a)
    with Pair i obtain xs where "stdout w1 = x # xs" by auto
    with f [of w1 a] Pair Inr show ?thesis by (auto simp: and_then_def only_appends_def)
  qed
qed

lemma and_then_return_snd: "snd (and_then m (\<lambda>_ w. (Inr c, w))) = snd m"
  by (cases m, cases "fst m") (auto simp: and_then_def)

lemma to_string_size_t_digits:
  "to_string_size_t d \<noteq> [] \<and> set (to_string_size_t d) \<subseteq> set ''0123456789''"
  using to_string_nat_digits to_string_nat_nonempty by (simp add: to_string_size_t_def)

lemma hello_description:
  "generateDetailedDescription ''RSA'' (securityLevels ! 2) (factorizationGroupSizes ! 2)
     (ucast (scast (word_of_nat (length ''hello'') :: c_int) :: size_t)) = ''RSA,128,3072,5''"
  by (simp add: generateDetailedDescription_def securityLevels_def factorizationGroupSizes_def
      to_string_int_def to_string_nat.simps digit_char_def)

lemma driver_lines_nonempty: "driver_lines len i clk c \<noteq> []"
  by (simp add: driver_lines_def measured_pair_def)

lemma csv_fields_length_field:
  assumes "CHR '','' \<notin> set name"
  shows "map (\<lambda>l. csv_fields l ! 3)
           (measured_pair (generateDetailedDescription name sl kl il) clk c)
         = [to_string_int il, to_string_int il]"
  using assms by (simp add: measured_pair_def csv_fields_line)

lemma driver_lines_empty_input:
  "map (\<lambda>l. csv_fields l ! 3) (driver_lines 0 i clk c) = replicate 16 ''0''"
proof -
  have z: "to_string_int 0 = ''0''"
    by (simp add: to_string_int_def to_string_nat.simps digit_char_def)
  have r: "replicate 16 ''0'' = [''0'', ''0'', ''0'', ''0'', ''0'', ''0'', ''0'', ''0'',
     ''0'', ''0'', ''0'', ''0'', ''0'', ''0'', ''0'', ''0'']"
    by (simp add: numeral_eq_Suc)
  show ?thesis
    unfolding driver_lines_def map_append r by (simp add: csv_fields_length_field z)
qed

section \<open>The claims\<close>

text \<open>
  C1. A driver run that completes has written exactly sixteen lines, a sign line and a
  verify line for each of RSA, NR, DSA, LUC, LUC-DL, Rabin, RW and ECDSA, in that
  order: the output is the old output followed by \<open>driver_lines\<close>, which has
  length 16 and whose first and fifth fields are as listed.
\<close>

theorem driver_sixteen_lines:
  assumes "ProfileSignatureSchemes lib inputData inputLength securityLevel w = (Inr u, w')"
  shows "stdout w' =
           stdout w @ driver_lines inputLength securityLevel (steady_clock w) (clock_reads w) \<and>
         length (driver_lines inputLength securityLevel (steady_clock w) (clock_reads w)) = 16 \<and>
         map (\<lambda>l. (csv_fields l ! 0, csv_fields l ! 4))
           (driver_lines inputLength securityLevel (steady_clock w) (clock_reads w)) =
           [(''RSA'', ''sign''), (''RSA'', ''verify''), (''NR'', ''sign''), (''NR'', ''verify''),
            (''DSA'', ''sign''), (''DSA'', ''verify''), (''LUC'', ''sign''), (''LUC'', ''verify''),
            (''LUC-DL'', ''sign''), (''LUC-DL'', ''verify''),
            (''Rabin'', ''sign''), (''Rabin'', ''verify''), (''RW'', ''sign''), (''RW'', ''verify''),
            (''ECDSA'', ''sign''), (''ECDSA'', ''verify'')]"
proof -
  have a: "stdout w' =
           stdout w @ driver_lines inputLength securityLevel (steady_clock w) (clock_reads w)"
    using driver_Inr [OF assms] by simp
  have b: "length (driver_lines inputLength securityLevel (steady_clock w) (clock_reads w)) = 16"
    by (simp add: driver_lines_def measured_pair_def)
  have c: "map (\<lambda>l. (csv_fields l ! 0, csv_fields l ! 4))
           (driver_lines inputLength securityLevel (steady_clock w) (clock_reads w)) =
           [(''RSA'', ''sign''), (''RSA'', ''verify''), (''NR'', ''sign''), (''NR'', ''verify''),
            (''DSA'', ''sign''), (''DSA'', ''verify''), (''LUC'', ''sign''), (''LUC'', ''verify''),
            (''LUC-DL'', ''sign''), (''LUC-DL'', ''verify''),
            (''Rabin'', ''sign''), (''Rabin'', ''verify''), (''RW'', ''sign''), (''RW'', ''verify''),
            (''ECDSA'', ''sign''), (''ECDSA'', ''verify'')]"
    unfolding driver_lines_def map_append by (simp add: csv_fields_pair)
  from a b c show ?thesis by simp
qed

text \<open>The driver run of the stand-in library at level index 2 on the input \<open>hello\<close>.\<close>

theorem driver_sixteen_lines_witness:
  "\<exists>w'. ProfileSignatureSchemes demo_lib ''hello'' 5 2 (demo_world []) = (Inr (), w') \<and>
        length (stdout w') = 16 \<and>
        map (\<lambda>l. (csv_fields l ! 0, csv_fields l ! 4)) (stdout w') =
           [(''RSA'', ''sign''), (''RSA'', ''verify''), (''NR'', ''sign''), (''NR'', ''verify''),
            (''DSA'', ''sign''), (''DSA'', ''verify''), (''LUC'', ''sign''), (''LUC'', ''verify''),
            (''LUC-DL'', ''sign''), (''LUC-DL'', ''verify''),
            (''Rabin'', ''sign''), (''Rabin'', ''verify''), (''RW'', ''sign''), (''RW'', ''verify''),
            (''ECDSA'', ''sign''), (''ECDSA'', ''verify'')]"
proof -
  have "(2 :: nat) < NUMBER_OF_SECURITY_LENGTHS" by (simp add: NUMBER_OF_SECURITY_LENGTHS_def)
  from driver_functioning [OF demo_functioning this]
  obtain w' where r: "ProfileSignatureSchemes demo_lib ''hello'' 5 2 (demo_world []) = (Inr (), w')"
    by blast
  have "stdout (demo_world []) = []" by (simp add: demo_world_def)
  with driver_sixteen_lines [OF r] r show ?thesis by simp
qed

text \<open>
  C2. The CSV line is the description, the operation name and the elapsed nanoseconds
  joined by commas; the description is the algorithm name, the security level bits,
  the parameter magnitude and the input length joined by commas; so a full line has
  the six fields in that order.
\<close>

theorem csv_line_format:
  "generateCSVString description operationName elapsedNanoseconds =
     description @ '','' @ operationName @ '','' @ to_string_size_t elapsedNanoseconds \<and>
   generateDetailedDescription algorithmName securityLevelBits parameterMagnitude inputLength =
     algorithmName @ '','' @ to_string_int securityLevelBits @ '','' @
     to_string_int parameterMagnitude @ '','' @ to_string_int inputLength \<and>
   generateCSVString
     (generateDetailedDescription algorithmName securityLevelBits parameterMagnitude inputLength)
     operationName elapsedNanoseconds =
     algorithmName @ '','' @ to_string_int securityLevelBits @ '','' @
     to_string_int parameterMagnitude @ '','' @ to_string_int inputLength @ '','' @
     operationName @ '','' @ to_string_size_t elapsedNanoseconds"
  by (simp add: generateCSVString_def generateDetailedDescription_def)

text \<open>
  C3. The lookup returns the 0-based index of the first table entry equal to the
  argument: 0, 1, 2, 3, 4 for 80, 112, 128, 192, 256, and 0 for every other
  \<^verbatim>\<open>int\<close>. It is a total function: no error is signalled.
\<close>

theorem securityIndex_of_first_match:
  "securityLevels = [80, 112, 128, 192, 256] \<and>
   securityIndex_of 80 = 0 \<and> securityIndex_of 112 = 1 \<and> securityIndex_of 128 = 2 \<and>
   securityIndex_of 192 = 3 \<and> securityIndex_of 256 = 4 \<and>
   (securityLevel \<notin> set securityLevels \<longrightarrow> securityIndex_of securityLevel = 0) \<and>
   (securityLevel \<in> set securityLevels \<longrightarrow>
      securityIndex_of securityLevel < NUMBER_OF_SECURITY_LENGTHS \<and>
      securityLevels ! securityIndex_of securityLevel = securityLevel \<and>
      (\<forall>j < securityIndex_of securityLevel. securityLevels ! j \<noteq> securityLevel))"
proof -
  have a: "securityLevel \<notin> set securityLevels \<longrightarrow> securityIndex_of securityLevel = 0"
    by (simp add: securityIndex_of_eq securityLevels_def)
  have b: "securityLevel \<in> set securityLevels \<longrightarrow>
      securityIndex_of securityLevel < NUMBER_OF_SECURITY_LENGTHS \<and>
      securityLevels ! securityIndex_of securityLevel = securityLevel"
    by (auto simp: securityIndex_of_eq securityLevels_def NUMBER_OF_SECURITY_LENGTHS_def)
  have c: "\<forall>j < securityIndex_of securityLevel. securityLevels ! j \<noteq> securityLevel"
    using securityIndex_of_earlier by blast
  have d: "securityLevels = [80, 112, 128, 192, 256] \<and>
   securityIndex_of 80 = 0 \<and> securityIndex_of 112 = 1 \<and> securityIndex_of 128 = 2 \<and>
   securityIndex_of 192 = 3 \<and> securityIndex_of 256 = 4"
    by (simp add: securityIndex_of_eq securityLevels_def)
  from a b c d show ?thesis by blast
qed

text \<open>The lookup at 999, which is not in the table, and at 192, which is.\<close>

theorem securityIndex_of_first_match_witness:
  "(999 :: c_int) \<notin> set securityLevels \<and> securityIndex_of 999 = 0 \<and>
   (192 :: c_int) \<in> set securityLevels \<and> securityIndex_of 192 = 3 \<and>
   securityLevels ! securityIndex_of 192 = 192 \<and>
   securityLevels ! 0 \<noteq> 192 \<and> securityLevels ! 1 \<noteq> 192 \<and> securityLevels ! 2 \<noteq> 192"
proof -
  have a: "(999 :: c_int) \<notin> set securityLevels" by (simp add: securityLevels_def)
  have b: "(192 :: c_int) \<in> set securityLevels" by (simp add: securityLevels_def)
  from a b securityIndex_of_first_match [of 999] securityIndex_of_first_match [of 192]
  have c: "securityIndex_of 999 = 0 \<and> securityIndex_of 192 = 3 \<and>
     securityLevels ! securityIndex_of 192 = 192 \<and>
     (\<forall>j < securityIndex_of 192. securityLevels ! j \<noteq> 192)"
    by blast
  then have "securityLevels ! 0 \<noteq> 192 \<and> securityLevels ! 1 \<noteq> 192 \<and> securityLevels ! 2 \<noteq> 192"
    by simp
  with a b c show ?thesis by blast
qed

text \<open>
  C7. With an argument count other than 3, \<^verbatim>\<open>main\<close> returns exit code 1 and the
  only change of the state is the three usage lines: standard input is not read,
  the generator is not keyed, no library call is made and no CSV line is written.
\<close>

theorem main_usage:
  "length argv \<noteq> 3 \<Longrightarrow>
   main lib argv w =
     (Inr 1,
      w\<lparr>stdout := stdout w @
         [''usage: verifier <security-level> <rng-seed>'',
          ''       security-level: the AES security equivalent level'',
          ''       rng-seed:       the seed for the global RNG'']\<rparr>)"
  by (simp add: main_def showUsage_def cout_endl_def)

text \<open>A call with one argument too few.\<close>

theorem main_usage_witness:
  "length [''verifier'', ''128''] \<noteq> 3 \<and>
   fst (main demo_lib [''verifier'', ''128''] (demo_world ''hello'')) = Inr 1 \<and>
   stdin (snd (main demo_lib [''verifier'', ''128''] (demo_world ''hello''))) = ''hello'' \<and>
   globalRNG (snd (main demo_lib [''verifier'', ''128''] (demo_world ''hello''))) = 0 \<and>
   lib_trace (snd (main demo_lib [''verifier'', ''128''] (demo_world ''hello''))) = [] \<and>
   length (stdout (snd (main demo_lib [''verifier'', ''128''] (demo_world ''hello'')))) = 3"
proof -
  have h: "length [''verifier'', ''128''] \<noteq> 3" by simp
  show ?thesis
    using h main_usage [OF h, of demo_lib "demo_world ''hello''"]
    by (simp add: demo_world_def)
qed

text \<open>
  C6, as the claim states it, fails: with a library whose verifier rejects the
  signature, the protocol aborts at its last assertion, and the verify line is on
  standard output by then.
\<close>

theorem verify_line_then_abort_counterexample:
  "fst (ProfileSignatureValidate rejecting_lib 0 0 ''hello'' 5 ''RSA,128,3072,5'' False
          (demo_world [])) = Inl AssertionFailed \<and>
   \<not> VerifyMessage rejecting_lib 0 ''hello'' 5
       (fst (fst (SignMessage rejecting_lib 0 2 ''hello'' 5)))
       (snd (fst (SignMessage rejecting_lib 0 2 ''hello'' 5))) \<and>
   stdout (snd (ProfileSignatureValidate rejecting_lib 0 0 ''hello'' 5 ''RSA,128,3072,5'' False
          (demo_world []))) =
     [''RSA,128,3072,5,sign,100'', ''RSA,128,3072,5,verify,100'']"
  by (simp add: demo_eval)

text \<open>
  C6, amended. When both keys validate and the signature just produced does not
  verify, the protocol run ends in the failed assertion (so nothing that would follow
  it is executed), and the sign line and the verify line have both been written
  before: the verify line is written whether or not the verification succeeded.
\<close>

theorem verify_line_then_abort:
  assumes "level = (if thorough then 3 else 2)"
    and "ValidatePublic lib pub (globalRNG w) level = (True, r1)"
    and "ValidatePrivate lib priv r1 level = (True, r2)"
    and "SignMessage lib priv r2 input inputLength = ((signature, signatureLength), r3)"
    and "\<not> VerifyMessage lib pub input inputLength signature signatureLength"
  shows "fst (ProfileSignatureValidate lib priv pub input inputLength description thorough w)
           = Inl AssertionFailed \<and>
         stdout (snd (ProfileSignatureValidate lib priv pub input inputLength description
                        thorough w)) =
           stdout w @
           [generateCSVString description ''sign''
              (nanoseconds_between (steady_clock w (clock_reads w))
                 (steady_clock w (clock_reads w + 1))),
            generateCSVString description ''verify''
              (nanoseconds_between (steady_clock w (clock_reads w + 2))
                 (steady_clock w (clock_reads w + 3)))] \<and>
         and_then
           (ProfileSignatureValidate lib priv pub input inputLength description thorough w) k =
           ProfileSignatureValidate lib priv pub input inputLength description thorough w"
  using assms
  by (simp add: PSV_eq Let_def measured_pair_def and_then_def numeral_2_eq_2 numeral_3_eq_3)

text \<open>The protocol with the library instance that rejects every signature.\<close>

theorem verify_line_then_abort_witness:
  "fst (ProfileSignatureValidate rejecting_lib 0 0 ''hello'' 5 ''RSA,128,3072,5'' False
          (demo_world [])) = Inl AssertionFailed \<and>
   stdout (snd (ProfileSignatureValidate rejecting_lib 0 0 ''hello'' 5 ''RSA,128,3072,5'' False
          (demo_world []))) =
     [generateCSVString ''RSA,128,3072,5'' ''sign'' 100,
      generateCSVString ''RSA,128,3072,5'' ''verify'' 100]"
proof -
  have a: "(2 :: nat) = (if False then 3 else 2)" by simp
  have b: "ValidatePublic rejecting_lib 0 (globalRNG (demo_world [])) 2 = (True, 1)"
    by (simp add: demo_eval)
  have c: "ValidatePrivate rejecting_lib 0 1 2 = (True, 2)" by (simp add: demo_eval)
  have d: "SignMessage rejecting_lib 0 2 ''hello'' 5 = (([], 0), 3)" by (simp add: demo_eval)
  have e: "\<not> VerifyMessage rejecting_lib 0 ''hello'' 5 [] 0" by (simp add: demo_eval)
  from verify_line_then_abort [OF a b c d e, of "''RSA,128,3072,5''"]
  show ?thesis by (simp add: demo_world_def nanoseconds_between_def)
qed

text \<open>
  C10. At every level index the ECDSA adapter builds its signer from the fixed domain
  parameters, without the generator and without the tables; what it writes is nothing
  or its two lines, the two lines when it returns; and in both lines the first three
  fields are \<open>ECDSA\<close>, the strength bits of the chosen level, and the constant 1.
\<close>

theorem ecdsa_reports_one:
  assumes "i < NUMBER_OF_SECURITY_LENGTHS"
  shows "filter builds_key
           (drop (length (lib_trace w))
              (lib_trace (snd (ValidateECDSA lib input inputLength i w)))) =
           [CallFixedSigner ecdsa_parameters] \<and>
         (stdout (snd (ValidateECDSA lib input inputLength i w)) = stdout w \<or>
          stdout (snd (ValidateECDSA lib input inputLength i w)) =
            stdout w @
            measured_pair
              (generateDetailedDescription ''ECDSA'' (securityLevels ! i) 1 (ucast inputLength))
              (steady_clock w) (clock_reads w)) \<and>
         ((\<exists>b. fst (ValidateECDSA lib input inputLength i w) = Inr b) \<longrightarrow>
            stdout (snd (ValidateECDSA lib input inputLength i w)) =
            stdout w @
            measured_pair
              (generateDetailedDescription ''ECDSA'' (securityLevels ! i) 1 (ucast inputLength))
              (steady_clock w) (clock_reads w)) \<and>
         map (\<lambda>l. (csv_fields l ! 0, csv_fields l ! 1, csv_fields l ! 2))
           (measured_pair
              (generateDetailedDescription ''ECDSA'' (securityLevels ! i) 1 (ucast inputLength))
              (steady_clock w) (clock_reads w)) =
           [(''ECDSA'', to_string_int (securityLevels ! i), ''1''),
            (''ECDSA'', to_string_int (securityLevels ! i), ''1'')]"
proof -
  note p = ValidateECDSA_profile [OF assms]
  have a: "filter builds_key
           (drop (length (lib_trace w))
              (lib_trace (snd (ValidateECDSA lib input inputLength i w)))) =
           [CallFixedSigner ecdsa_parameters]"
    unfolding p using profile_with_key_call [of w lib "Inr ecdsa_parameters"] by simp
  have b: "stdout (snd (ValidateECDSA lib input inputLength i w)) = stdout w \<or>
          stdout (snd (ValidateECDSA lib input inputLength i w)) =
            stdout w @
            measured_pair
              (generateDetailedDescription ''ECDSA'' (securityLevels ! i) 1 (ucast inputLength))
              (steady_clock w) (clock_reads w)"
    unfolding p
    using profile_with_any [OF prod.collapse [symmetric], of lib "Inr ecdsa_parameters"]
    by blast
  have c: "(\<exists>b. fst (ValidateECDSA lib input inputLength i w) = Inr b) \<longrightarrow>
            stdout (snd (ValidateECDSA lib input inputLength i w)) =
            stdout w @
            measured_pair
              (generateDetailedDescription ''ECDSA'' (securityLevels ! i) 1 (ucast inputLength))
              (steady_clock w) (clock_reads w)"
    unfolding p
    by (metis profile_with_Inr prod.collapse)
  from a b c csv_fields_ecdsa show ?thesis by blast
qed

text \<open>The ECDSA adapter of the stand-in library at level index 3.\<close>

theorem ecdsa_reports_one_witness:
  "(3 :: nat) < NUMBER_OF_SECURITY_LENGTHS \<and>
   filter builds_key (lib_trace (snd (ValidateECDSA demo_lib ''hello'' 5 3 (demo_world [])))) =
     [CallFixedSigner ecdsa_parameters] \<and>
   fst (ValidateECDSA demo_lib ''hello'' 5 3 (demo_world [])) = Inr True \<and>
   stdout (snd (ValidateECDSA demo_lib ''hello'' 5 3 (demo_world []))) =
     [''ECDSA,192,1,5,sign,100'', ''ECDSA,192,1,5,verify,100'']"
proof -
  have i: "(3 :: nat) < NUMBER_OF_SECURITY_LENGTHS" by (simp add: NUMBER_OF_SECURITY_LENGTHS_def)
  have r: "fst (ValidateECDSA demo_lib ''hello'' 5 3 (demo_world [])) = Inr True"
    by (simp add: ValidateECDSA_def demo_eval)
  have m: "measured_pair (generateDetailedDescription ''ECDSA'' (securityLevels ! 3) 1
             (ucast (5 :: size_t))) (steady_clock (demo_world [])) 0 =
           [''ECDSA,192,1,5,sign,100'', ''ECDSA,192,1,5,verify,100'']"
    by (simp add: measured_pair_def demo_eval)
  have e: "\<exists>b. fst (ValidateECDSA demo_lib ''hello'' 5 3 (demo_world [])) = Inr b"
    using r by blast
  have w: "lib_trace (demo_world []) = []" "stdout (demo_world []) = []"
    "clock_reads (demo_world []) = 0"
    by (simp_all add: demo_world_def)
  from ecdsa_reports_one [OF i, of "demo_world []" demo_lib "''hello''" 5] e
  have "filter builds_key (lib_trace (snd (ValidateECDSA demo_lib ''hello'' 5 3 (demo_world [])))) =
     [CallFixedSigner ecdsa_parameters]"
    and "stdout (snd (ValidateECDSA demo_lib ''hello'' 5 3 (demo_world []))) =
      measured_pair (generateDetailedDescription ''ECDSA'' (securityLevels ! 3) 1
             (ucast (5 :: size_t))) (steady_clock (demo_world [])) 0"
    unfolding w by simp_all
  with r m i show ?thesis by simp
qed

text \<open>
  C5, as the claim states it, fails: at level index 0 the DSA adapter and the LUC-DL
  adapter both ask for a 1024-bit key, while the subgroup size of that level is 160.
\<close>

theorem key_requests_counterexample:
  "filter builds_key (lib_trace (snd (ValidateDSA demo_lib ''hello'' 5 0 (demo_world [])))) =
     [CallGenerateSigner (DSA_Signer 1024) 0] \<and>
   filter builds_key (lib_trace (snd (ValidateLUC_DL demo_lib ''hello'' 5 0 (demo_world [])))) =
     [CallGenerateSigner (LUC_HMP_SHA_Signer 1024) 0] \<and>
   finiteFieldSubgroupSizes ! 0 = 160 \<and>
   DSA_Signer 1024 \<noteq> DSA_Signer (finiteFieldSubgroupSizes ! 0) \<and>
   LUC_HMP_SHA_Signer 1024 \<noteq> LUC_HMP_SHA_Signer (finiteFieldSubgroupSizes ! 0)"
  by (simp add: ValidateDSA_def ValidateLUC_DL_def demo_eval)

text \<open>
  C5, amended. At every level index each adapter constructs exactly one signer:
  RSA, DSA, LUC, Rabin and RW with the factorization group size of the level, NR with
  the finite field subgroup size, LUC-DL with the finite field size, and ECDSA with
  the fixed domain parameters, which do not come from the tables.
\<close>

theorem key_requests:
  assumes "i < NUMBER_OF_SECURITY_LENGTHS"
  shows
    "filter builds_key (drop (length (lib_trace w))
       (lib_trace (snd (ValidateRSA lib input inputLength i w)))) =
       [CallGenerateSigner (RSASSA_PKCS1v15_MD2_Signer (factorizationGroupSizes ! i))
          (globalRNG w)] \<and>
     filter builds_key (drop (length (lib_trace w))
       (lib_trace (snd (ValidateNR lib input inputLength i w)))) =
       [CallGenerateSigner (NR_SHA_Signer (finiteFieldSubgroupSizes ! i)) (globalRNG w)] \<and>
     filter builds_key (drop (length (lib_trace w))
       (lib_trace (snd (ValidateDSA lib input inputLength i w)))) =
       [CallGenerateSigner (DSA_Signer (factorizationGroupSizes ! i)) (globalRNG w)] \<and>
     filter builds_key (drop (length (lib_trace w))
       (lib_trace (snd (ValidateLUC lib input inputLength i w)))) =
       [CallGenerateSigner (LUCSSA_PKCS1v15_SHA_Signer (factorizationGroupSizes ! i))
          (globalRNG w)] \<and>
     filter builds_key (drop (length (lib_trace w))
       (lib_trace (snd (ValidateLUC_DL lib input inputLength i w)))) =
       [CallGenerateSigner (LUC_HMP_SHA_Signer (finiteFieldSizes ! i)) (globalRNG w)] \<and>
     filter builds_key (drop (length (lib_trace w))
       (lib_trace (snd (ValidateRabin lib input inputLength i w)))) =
       [CallGenerateSigner (RabinSS_PSSR_SHA_Signer (factorizationGroupSizes ! i))
          (globalRNG w)] \<and>
     filter builds_key (drop (length (lib_trace w))
       (lib_trace (snd (ValidateRW lib input inputLength i w)))) =
       [CallGenerateSigner (RWSS_PSSR_SHA_Signer (factorizationGroupSizes ! i)) (globalRNG w)] \<and>
     filter builds_key (drop (length (lib_trace w))
       (lib_trace (snd (ValidateECDSA lib input inputLength i w)))) =
       [CallFixedSigner ecdsa_parameters]"
  unfolding adapter_profiles [OF assms] profile_with_key_call by simp

text \<open>The adapters of the stand-in library at level index 0.\<close>

theorem key_requests_witness:
  "(0 :: nat) < NUMBER_OF_SECURITY_LENGTHS \<and>
   filter builds_key (lib_trace (snd (ValidateRSA demo_lib ''hello'' 5 0 (demo_world [])))) =
     [CallGenerateSigner (RSASSA_PKCS1v15_MD2_Signer 1024) 0] \<and>
   filter builds_key (lib_trace (snd (ValidateNR demo_lib ''hello'' 5 0 (demo_world [])))) =
     [CallGenerateSigner (NR_SHA_Signer 160) 0] \<and>
   filter builds_key (lib_trace (snd (ValidateDSA demo_lib ''hello'' 5 0 (demo_world [])))) =
     [CallGenerateSigner (DSA_Signer 1024) 0] \<and>
   filter builds_key (lib_trace (snd (ValidateLUC_DL demo_lib ''hello'' 5 0 (demo_world [])))) =
     [CallGenerateSigner (LUC_HMP_SHA_Signer 1024) 0] \<and>
   filter builds_key (lib_trace (snd (ValidateECDSA demo_lib ''hello'' 5 0 (demo_world [])))) =
     [CallFixedSigner ecdsa_parameters]"
proof -
  have i: "(0 :: nat) < NUMBER_OF_SECURITY_LENGTHS" by (simp add: NUMBER_OF_SECURITY_LENGTHS_def)
  have w: "lib_trace (demo_world []) = []" "globalRNG (demo_world []) = 0"
    by (simp_all add: demo_world_def)
  have t: "factorizationGroupSizes ! 0 = 1024" "finiteFieldSubgroupSizes ! 0 = 160"
    "finiteFieldSizes ! 0 = 1024"
    by (simp_all add: factorizationGroupSizes_def finiteFieldSubgroupSizes_def
        finiteFieldSizes_def)
  from key_requests [OF i, of "demo_world []" demo_lib "''hello''" 5] i
  show ?thesis unfolding w t by simp
qed

text \<open>
  C8. Two runs of \<^verbatim>\<open>main\<close> with the same arguments, from states that agree on
  standard input, on the generator and on the library calls made so far, return the
  same result and end in states that agree in the same way: every library call is made
  in the same order with the same generator state, and the lines written have the same
  fields except the last one. With three arguments the first library call keys the
  generator with the seed resized to 16 bytes, as key and as initialisation vector.
\<close>

theorem same_seed_same_draws:
  assumes "same_but_timing w1 w2"
  shows "fst (main lib argv w1) = fst (main lib argv w2) \<and>
         same_but_timing (snd (main lib argv w1)) (snd (main lib argv w2)) \<and>
         (length argv = 3 \<and> atoi (argv ! 1) \<noteq> None \<longrightarrow>
            length (resize (argv ! 2) 16) = 16 \<and>
            (\<exists>ext. lib_trace (snd (main lib argv w1)) =
               lib_trace w1 @
               CallSetKeyWithIV (resize (argv ! 2) 16) 16 (resize (argv ! 2) 16) # ext))"
  using main_same [OF assms, of lib argv] main_trace [of argv _ lib w1]
  by (auto simp: same_run_def resize_length)

text \<open>Two runs of the stand-in library that differ in the clock only.\<close>

theorem same_seed_same_draws_witness:
  "same_but_timing (demo_world ''hello'')
     ((demo_world ''hello'')\<lparr>steady_clock := \<lambda>k. 7 * int k * int k\<rparr>) \<and>
   fst (main demo_lib [''verifier'', ''128'', ''0123456789abcdef''] (demo_world ''hello'')) =
   fst (main demo_lib [''verifier'', ''128'', ''0123456789abcdef'']
          ((demo_world ''hello'')\<lparr>steady_clock := \<lambda>k. 7 * int k * int k\<rparr>)) \<and>
   same_but_timing
     (snd (main demo_lib [''verifier'', ''128'', ''0123456789abcdef''] (demo_world ''hello'')))
     (snd (main demo_lib [''verifier'', ''128'', ''0123456789abcdef'']
          ((demo_world ''hello'')\<lparr>steady_clock := \<lambda>k. 7 * int k * int k\<rparr>))) \<and>
   (\<exists>ext. lib_trace
       (snd (main demo_lib [''verifier'', ''128'', ''0123456789abcdef''] (demo_world ''hello'')))
      = CallSetKeyWithIV ''0123456789abcdef'' 16 ''0123456789abcdef'' # ext)"
proof -
  have h: "same_but_timing (demo_world ''hello'')
     ((demo_world ''hello'')\<lparr>steady_clock := \<lambda>k. 7 * int k * int k\<rparr>)"
    by (simp add: same_but_timing_def)
  have a: "length [''verifier'', ''128'', ''0123456789abcdef''] = 3 \<and>
           atoi ([''verifier'', ''128'', ''0123456789abcdef''] ! 1) \<noteq> None"
    by (simp add: atoi_def isspace_def isdigit_def)
  have s: "resize ([''verifier'', ''128'', ''0123456789abcdef''] ! 2) 16 = ''0123456789abcdef''"
    by (simp add: resize_def)
  have t: "lib_trace (demo_world ''hello'') = []" by (simp add: demo_world_def)
  from same_seed_same_draws [OF h, of demo_lib "[''verifier'', ''128'', ''0123456789abcdef'']"]
    a h
  show ?thesis unfolding s t by simp
qed

text \<open>
  C4. With the arguments 128 and \<open>0123456789abcdef\<close> and the input \<open>hello\<close>, the
  level index is 2, where the factorization group size is 3072 and the subgroup and
  curve sizes are 256; the first line written, if any, is \<open>RSA,128,3072,5,sign,\<close>
  followed by the elapsed nanoseconds of the signing; a line is written when the library
  works; and elapsed nanoseconds print as a non-empty string of decimal digits.
\<close>

theorem hello_128_first_line:
  assumes "stdin w = ''hello''" and "stdout w = []"
  shows "atoi ''128'' = Some 128 \<and> securityIndex_of 128 = 2 \<and>
         factorizationGroupSizes ! 2 = 3072 \<and> finiteFieldSubgroupSizes ! 2 = 256 \<and>
         ellipticCurveSizes ! 2 = 256 \<and>
         (stdout (snd (main lib [prog, ''128'', ''0123456789abcdef''] w)) = [] \<or>
          hd (stdout (snd (main lib [prog, ''128'', ''0123456789abcdef''] w))) =
            ''RSA,128,3072,5,sign,'' @
            to_string_size_t (nanoseconds_between (steady_clock w (clock_reads w))
                                (steady_clock w (clock_reads w + 1)))) \<and>
         (functioning lib \<longrightarrow>
            stdout (snd (main lib [prog, ''128'', ''0123456789abcdef''] w)) \<noteq> []) \<and>
         to_string_size_t elapsed \<noteq> [] \<and>
         set (to_string_size_t elapsed) \<subseteq> set ''0123456789''"
proof -
  let ?argv = "[prog, ''128'', ''0123456789abcdef'']"
  let ?W = "seeded lib ''0123456789abcdef'' w"
  let ?line = "''RSA,128,3072,5,sign,'' @
            to_string_size_t (nanoseconds_between (steady_clock w (clock_reads w))
                                (steady_clock w (clock_reads w + 1)))"
  have a: "atoi ''128'' = Some 128" by (simp add: atoi_def isspace_def isdigit_def)
  have l: "length ?argv = 3" by simp
  have a': "atoi (?argv ! 1) = Some 128" using a by simp
  have idx: "securityIndex_of 128 = 2" by (simp add: securityIndex_of_eq)
  have i: "(2 :: nat) < NUMBER_OF_SECURITY_LENGTHS" by (simp add: NUMBER_OF_SECURITY_LENGTHS_def)
  have t: "factorizationGroupSizes ! 2 = 3072 \<and> finiteFieldSubgroupSizes ! 2 = 256 \<and>
         ellipticCurveSizes ! 2 = 256"
    by (simp add: factorizationGroupSizes_def finiteFieldSubgroupSizes_def
        ellipticCurveSizes_def)
  have W: "stdout ?W = []" "steady_clock ?W = steady_clock w" "clock_reads ?W = clock_reads w"
    using assms by (simp_all add: seeded_def)
  let ?len = "scast (word_of_nat (length ''hello'') :: c_int) :: size_t"
  let ?R = "ValidateRSA lib ''hello'' ?len 2 ?W"
  have pair: "measured_pair ''RSA,128,3072,5'' (steady_clock w) (clock_reads w) =
      [?line, generateCSVString ''RSA,128,3072,5'' ''verify''
         (nanoseconds_between (steady_clock w (Suc (Suc (clock_reads w))))
            (steady_clock w (Suc (Suc (Suc (clock_reads w))))))]"
    by (simp add: measured_pair_def generateCSVString_def)
  have R1: "stdout (snd ?R) = [] \<or> (\<exists>xs. stdout (snd ?R) = ?line # xs)"
    using profile_with_any [OF prod.collapse [symmetric], of lib
        "Inl (RSASSA_PKCS1v15_MD2_Signer (factorizationGroupSizes ! 2))" "\<lambda>sk. sk" "''hello''"
        ?len "''RSA,128,3072,5''" ?W]
    unfolding ValidateRSA_profile [OF i] hello_description W pair by auto
  have R2: "\<forall>b. fst ?R = Inr b \<longrightarrow> (\<exists>xs. stdout (snd ?R) = ?line # xs)"
  proof (intro allI impI)
    fix b assume "fst ?R = Inr b"
    then have "?R = (Inr b, snd ?R)" by (metis prod.collapse)
    from profile_with_Inr [OF this [unfolded ValidateRSA_profile [OF i] hello_description]]
    show "\<exists>xs. stdout (snd ?R) = ?line # xs"
      unfolding ValidateRSA_profile [OF i] hello_description W pair by simp
  qed
  have d: "stdout (snd (ProfileSignatureSchemes lib ''hello'' ?len 2 ?W)) = [] \<or>
           hd (stdout (snd (ProfileSignatureSchemes lib ''hello'' ?len 2 ?W))) = ?line"
    unfolding ProfileSignatureSchemes_def
    by (rule first_output [OF R1 R2])
       (intro and_then_only_appends adapters_only_appends snd_Inr_only_appends)
  have m: "snd (main lib ?argv w) = snd (ProfileSignatureSchemes lib ''hello'' ?len 2 ?W)"
    unfolding main_run [OF l a'] and_then_return_snd using assms idx by simp
  have f: "functioning lib \<longrightarrow> stdout (snd (main lib ?argv w)) \<noteq> []"
  proof
    assume "functioning lib"
    from main_functioning [OF this l a', of w] show "stdout (snd (main lib ?argv w)) \<noteq> []"
      using driver_lines_nonempty by auto
  qed
  from a idx t d m f to_string_size_t_digits [of elapsed] show ?thesis by simp
qed

text \<open>The run of the stand-in library on \<open>hello\<close>.\<close>

theorem hello_128_first_line_witness:
  "stdin (demo_world ''hello'') = ''hello'' \<and> stdout (demo_world ''hello'') = [] \<and>
   functioning demo_lib \<and>
   hd (stdout (snd (main demo_lib [''verifier'', ''128'', ''0123456789abcdef'']
                      (demo_world ''hello'')))) = ''RSA,128,3072,5,sign,100''"
proof -
  have a: "stdin (demo_world ''hello'') = ''hello''" and b: "stdout (demo_world ''hello'') = []"
    by (simp_all add: demo_world_def)
  have e: "''RSA,128,3072,5,sign,'' @
            to_string_size_t (nanoseconds_between
              (steady_clock (demo_world ''hello'') (clock_reads (demo_world ''hello'')))
              (steady_clock (demo_world ''hello'') (clock_reads (demo_world ''hello'') + 1)))
           = ''RSA,128,3072,5,sign,100''"
    by (simp add: demo_world_def nanoseconds_between_def to_string_size_t_def
        to_string_nat.simps digit_char_def)
  from hello_128_first_line [OF a b, of demo_lib "''verifier''" 0] demo_functioning a b
  show ?thesis unfolding e by blast
qed

text \<open>
  C9. The loop that reads standard input leaves the input without its line feeds as
  the message, and \<^verbatim>\<open>main\<close> hands that message to the driver. With empty input
  and a library that works, the run completes with exit code 0 and writes the sixteen
  lines, each with 0 in the input length field.
\<close>

theorem empty_input_accepted:
  assumes "length argv = 3" and "atoi (argv ! 1) = Some securityLevel"
  shows "read_lines [] (stdin w) = (filter (\<lambda>c. c \<noteq> CHR 0x0A) (stdin w), []) \<and>
         main lib argv w =
           and_then
             (ProfileSignatureSchemes lib (filter (\<lambda>c. c \<noteq> CHR 0x0A) (stdin w))
                (scast (word_of_nat (length (filter (\<lambda>c. c \<noteq> CHR 0x0A) (stdin w))) :: c_int))
                (securityIndex_of securityLevel) (seeded lib (argv ! 2) w))
             (\<lambda>_ w. (Inr 0, w)) \<and>
         (functioning lib \<and> stdin w = [] \<longrightarrow>
            (\<exists>w'. main lib argv w = (Inr 0, w') \<and>
                  stdout w' = stdout w @
                    driver_lines 0 (securityIndex_of securityLevel) (steady_clock w)
                      (clock_reads w)) \<and>
            length (driver_lines 0 (securityIndex_of securityLevel) (steady_clock w)
                      (clock_reads w)) = 16 \<and>
            map (\<lambda>l. csv_fields l ! 3)
              (driver_lines 0 (securityIndex_of securityLevel) (steady_clock w) (clock_reads w))
              = replicate 16 ''0'')"
proof -
  have a: "read_lines [] (stdin w) = (filter (\<lambda>c. c \<noteq> CHR 0x0A) (stdin w), [])"
    by (simp add: read_lines_filter)
  have c: "functioning lib \<and> stdin w = [] \<longrightarrow>
            (\<exists>w'. main lib argv w = (Inr 0, w') \<and>
                  stdout w' = stdout w @
                    driver_lines 0 (securityIndex_of securityLevel) (steady_clock w)
                      (clock_reads w))"
  proof
    assume h: "functioning lib \<and> stdin w = []"
    with main_functioning [OF _ assms, of lib w]
    show "\<exists>w'. main lib argv w = (Inr 0, w') \<and>
                  stdout w' = stdout w @
                    driver_lines 0 (securityIndex_of securityLevel) (steady_clock w)
                      (clock_reads w)"
      by simp
  qed
  have d: "length (driver_lines 0 (securityIndex_of securityLevel) (steady_clock w)
                      (clock_reads w)) = 16"
    by (simp add: driver_lines_def measured_pair_def)
  from a main_run [OF assms, of lib w] c d driver_lines_empty_input show ?thesis by blast
qed

text \<open>The run of the stand-in library on empty input.\<close>

theorem empty_input_accepted_witness:
  "\<exists>w'. main demo_lib [''verifier'', ''256'', ''seed''] (demo_world []) = (Inr 0, w') \<and>
        length (stdout w') = 16 \<and>
        map (\<lambda>l. csv_fields l ! 3) (stdout w') = replicate 16 ''0''"
proof -
  have l: "length [''verifier'', ''256'', ''seed''] = 3" by simp
  have a: "atoi ([''verifier'', ''256'', ''seed''] ! 1) = Some 256"
    by (simp add: atoi_def isspace_def isdigit_def)
  have w: "stdin (demo_world []) = []" "stdout (demo_world []) = []"
    by (simp_all add: demo_world_def)
  from empty_input_accepted [OF l a, of "demo_world []" demo_lib] demo_functioning w
  obtain w' where "main demo_lib [''verifier'', ''256'', ''seed''] (demo_world []) = (Inr 0, w')"
    and "stdout w' = stdout (demo_world []) @
           driver_lines 0 (securityIndex_of 256) (steady_clock (demo_world []))
             (clock_reads (demo_world []))"
    and "length (driver_lines 0 (securityIndex_of 256) (steady_clock (demo_world []))
             (clock_reads (demo_world []))) = 16"
    and "map (\<lambda>l. csv_fields l ! 3)
           (driver_lines 0 (securityIndex_of 256) (steady_clock (demo_world []))
             (clock_reads (demo_world []))) = replicate 16 ''0''"
    by blast
  with w show ?thesis by simp
qed

end
